theory Spec2Isabelle
  imports Main
begin

section \<open>Python values and string helpers\<close>

text \<open>
  The module \<^verbatim>\<open>idrac_redfish_storage_controller.py\<close> is embedded function by function.
  Scalar values that arrive from YAML or from the remote system's JSON are \<open>pyval\<close>;
  \<open>truthy\<close> is Python's truth test on them.
\<close>

datatype pyval = PNone | PBool bool | PInt int | PStr string

fun truthy :: "pyval \<Rightarrow> bool" where
  "truthy PNone = False"
| "truthy (PBool b) = b"
| "truthy (PInt i) = (i \<noteq> 0)"
| "truthy (PStr s) = (s \<noteq> [])"

text \<open>Python's \<^verbatim>\<open>==\<close> on scalars: \<^verbatim>\<open>True == 1\<close> and \<^verbatim>\<open>False == 0\<close> hold.\<close>

fun py_eq :: "pyval \<Rightarrow> pyval \<Rightarrow> bool" where
  "py_eq (PBool b) (PInt i) = (i = (if b then 1 else 0))"
| "py_eq (PInt i) (PBool b) = (i = (if b then 1 else 0))"
| "py_eq x y = (x = y)"

text \<open>\<^verbatim>\<open>s.split(c)[-1]\<close>: what follows the last \<open>c\<close>, all of \<open>s\<close> when there is none.\<close>

definition split_last :: "char \<Rightarrow> string \<Rightarrow> string" where
  "split_last c s = rev (takeWhile (\<lambda>x. x \<noteq> c) (rev s))"

text \<open>\<^verbatim>\<open>sub in s\<close> on strings.\<close>

fun contains :: "string \<Rightarrow> string \<Rightarrow> bool" where
  "contains sub [] = (sub = [])"
| "contains sub (x # xs) = (take (length sub) (x # xs) = sub \<or> contains sub xs)"

text \<open>\<^verbatim>\<open>s.endswith(suf)\<close>.\<close>

definition endswith :: "string \<Rightarrow> string \<Rightarrow> bool" where
  "endswith s suf = (length suf \<le> length s \<and> drop (length s - length suf) s = suf)"

text \<open>\<^verbatim>\<open>a < b\<close> on strings: lexicographic by code point, a proper prefix is smaller.\<close>

fun str_less :: "string \<Rightarrow> string \<Rightarrow> bool" where
  "str_less [] [] = False"
| "str_less [] (y # ys) = True"
| "str_less (x # xs) [] = False"
| "str_less (x # xs) (y # ys) =
     ((of_char x :: nat) < of_char y \<or> (x = y \<and> str_less xs ys))"

text \<open>\<^verbatim>\<open>"{0}".format(v)\<close> for an optional string: \<^verbatim>\<open>None\<close> prints as \<open>None\<close>.\<close>

fun fmt :: "string option \<Rightarrow> string" where
  "fmt None = ''None''"
| "fmt (Some s) = s"

section \<open>Constants of the module\<close>

definition SYSTEM_ID :: string where
  "SYSTEM_ID = ''System.Embedded.1''"

definition RAID_ACTION_URI :: "string \<Rightarrow> string \<Rightarrow> string" where
  "RAID_ACTION_URI system_id action =
     ''/redfish/v1/Systems/'' @ system_id @ ''/Oem/Dell/DellRaidService/Actions/DellRaidService.'' @ action"

definition CONTROLLER_URI :: "string \<Rightarrow> string \<Rightarrow> string" where
  "CONTROLLER_URI system_id controller_id =
     ''/redfish/v1/Dell/Systems/'' @ system_id @ ''/Storage/DellController/'' @ controller_id"

definition VOLUME_URI :: "string \<Rightarrow> string \<Rightarrow> string" where
  "VOLUME_URI system_id controller_id =
     ''/redfish/v1/Systems/'' @ system_id @ ''/Storage/'' @ controller_id @ ''/Volumes''"

definition PD_URI :: "string \<Rightarrow> string \<Rightarrow> string" where
  "PD_URI controller_id drive_id =
     ''/redfish/v1/Systems/System.Embedded.1/Storage/'' @ controller_id @ ''/Drives/'' @ drive_id"

definition JOB_URI_OEM :: "string \<Rightarrow> string" where
  "JOB_URI_OEM job_id = ''/redfish/v1/Managers/iDRAC.Embedded.1/Oem/Dell/Jobs/'' @ job_id"

definition CONTROLLERS_URI :: "string \<Rightarrow> string \<Rightarrow> string" where
  "CONTROLLERS_URI system_id controller_id =
     ''/redfish/v1/Systems/'' @ system_id @ ''/Storage/'' @ controller_id
       @ ''/Controllers/'' @ controller_id"

definition MANAGER_URI :: string where
  "MANAGER_URI = ''/redfish/v1/Managers/iDRAC.Embedded.1''"

definition SETTINGS_URI :: "string \<Rightarrow> string \<Rightarrow> string" where
  "SETTINGS_URI system_id controller_id =
     ''/redfish/v1/Systems/'' @ system_id @ ''/Storage/'' @ controller_id
       @ ''/Controllers/'' @ controller_id @ ''/Settings''"

text \<open>\<^verbatim>\<open>OCE_MIN_PD_RAID_MAPPING\<close>; a key that is absent raises \<^verbatim>\<open>KeyError\<close> at the lookup.\<close>

definition OCE_MIN_PD_RAID_MAPPING :: "string option \<Rightarrow> nat option" where
  "OCE_MIN_PD_RAID_MAPPING raid_type =
     (if raid_type = Some ''RAID0'' then Some 1
      else if raid_type = Some ''RAID5'' then Some 1
      else if raid_type = Some ''RAID6'' then Some 1
      else if raid_type = Some ''RAID10'' then Some 2
      else None)"

text \<open>
  The message templates, each with its format arguments. The texts are:
  \<open>CHANGES_FOUND\<close> "Changes found to be applied.",
  \<open>NO_CHANGES_FOUND\<close> "No changes found to be applied.",
  \<open>PHYSICAL_DISK_ERR\<close> "Volume is not encryption capable.",
  \<open>HBA_MODE\<close> "Other attributes cannot be updated when ControllerMode is provided as input.",
  \<open>INVALID_ATTRIBUTES\<close> "The following attributes are invalid: {0}",
  \<open>OCE_SIZE_100MB\<close> "Minimum Online Capacity Expansion size must be greater than 100 MB of
  the current size {0}.",
  \<open>OCE_TARGET_EMPTY\<close> "Provided list of targets is empty.",
  \<open>UNSUPPORTED_APPLY_TIME\<close> "Apply time {0} is not supported.",
  \<open>MAINTENANCE_OFFSET\<close> "The maintenance time must be post-fixed with local offset to {0}.",
  \<open>MAINTENANCE_TIME\<close> "The specified maintenance time window occurs in the past, provide a
  future time to schedule the maintenance window."
  \<open>ID_NOT_FOUND\<close> is the local message of \<open>check_id_exists\<close>, \<open>REQUIRED_ALL\<close> the
  two messages of \<open>validate_inputs\<close>, \<open>REMOTE_MESSAGE\<close> a message text taken from the
  remote error body, and \<open>STR_OF\<close> is \<^verbatim>\<open>str(e)\<close> of a caught exception.
\<close>

datatype py_exception =
  HTTPError_exc | KeyError | TypeError | AttributeError | IndexError | UnboundLocalError

datatype message =
    JOB_SUBMISSION string
  | JOB_COMPLETION string
  | JOB_EXISTS
  | CHANGES_FOUND
  | NO_CHANGES_FOUND
  | TARGET_ERR_MSG string
  | CNTRL_ERROR_MSG string
  | PD_ERROR_MSG string
  | VD_ERROR_MSG string
  | ENCRYPT_ERR_MSG string
  | PHYSICAL_DISK_ERR
  | DRIVE_NOT_SECURE_ERASE string
  | DRIVE_NOT_READY string
  | OCE_RAID_TYPE_ERR string
  | OCE_SIZE_100MB int
  | OCE_TARGET_EMPTY
  | OCE_TARGET_RAID1_ERR
  | UNSUPPORTED_APPLY_TIME string
  | MAINTENANCE_OFFSET string
  | MAINTENANCE_TIME
  | HBA_MODE
  | INVALID_ATTRIBUTES "string list"
  | CONTROLLER_ID_REQUIRED
  | JOB_COMPLETION_ATTRIBUTES
  | JOB_SUBMISSION_ATTRIBUTES
  | ERR_MSG
  | ID_NOT_FOUND string string
  | REQUIRED_ALL "string list" string
  | REMOTE_MESSAGE
  | STR_OF py_exception

section \<open>Parameters, responses and outcomes\<close>

datatype command =
    ResetConfig | AssignSpare | SetControllerKey | RemoveControllerKey | ReKey
  | UnassignSpare | EnableControllerEncryption | BlinkTarget | UnBlinkTarget
  | ConvertToRAID | ConvertToNonRAID | ChangePDStateToOnline | ChangePDStateToOffline
  | LockVirtualDisk | OnlineCapacityExpansion | SecureErase

fun command_name :: "command \<Rightarrow> string" where
  "command_name ResetConfig = ''ResetConfig''"
| "command_name AssignSpare = ''AssignSpare''"
| "command_name SetControllerKey = ''SetControllerKey''"
| "command_name RemoveControllerKey = ''RemoveControllerKey''"
| "command_name ReKey = ''ReKey''"
| "command_name UnassignSpare = ''UnassignSpare''"
| "command_name EnableControllerEncryption = ''EnableControllerEncryption''"
| "command_name BlinkTarget = ''BlinkTarget''"
| "command_name UnBlinkTarget = ''UnBlinkTarget''"
| "command_name ConvertToRAID = ''ConvertToRAID''"
| "command_name ConvertToNonRAID = ''ConvertToNonRAID''"
| "command_name ChangePDStateToOnline = ''ChangePDStateToOnline''"
| "command_name ChangePDStateToOffline = ''ChangePDStateToOffline''"
| "command_name LockVirtualDisk = ''LockVirtualDisk''"
| "command_name OnlineCapacityExpansion = ''OnlineCapacityExpansion''"
| "command_name SecureErase = ''SecureErase''"

fun fmt_command :: "command option \<Rightarrow> string" where
  "fmt_command None = ''None''"
| "fmt_command (Some c) = command_name c"

datatype mode = LKM | SEKM

fun mode_name :: "mode \<Rightarrow> string" where
  "mode_name LKM = ''LKM''"
| "mode_name SEKM = ''SEKM''"

text \<open>
  \<^verbatim>\<open>module.params\<close> after argument parsing, with \<^verbatim>\<open>module.check_mode\<close>. A parameter
  that was not given is \<open>None\<close>; \<open>mode\<close>, \<open>apply_time\<close>, \<open>job_wait\<close> and
  \<open>job_wait_timeout\<close> have defaults. \<open>maintenance_window\<close> is the pair of
  \<open>start_time\<close> and \<open>duration\<close>. A dict is an association list with distinct keys.
\<close>

record params =
  attributes :: "(string \<times> pyval) list option"
  command :: "command option"
  controller_id :: "string option"
  volume_id :: "string list option"
  target :: "string list option"
  key :: "string option"
  key_id :: "string option"
  old_key :: "string option"
  mode :: mode
  apply_time :: string
  maintenance_window :: "(string \<times> int) option"
  job_wait :: bool
  job_wait_timeout :: int
  size_mb :: "int option"
  check_mode :: bool

text \<open>Request bodies.\<close>

datatype json =
    JVal pyval
  | JOpt "string option"
  | JStrs "string list"
  | JOptStrs "string list option"
  | JObj "(string \<times> json) list"
  | JRaw string

datatype request =
    GET string
  | POST string "json option"
  | PATCH string json
  | WAIT_FOR_JOB string bool int

text \<open>
  A response of \<^verbatim>\<open>invoke_request\<close>; the call raises \<^verbatim>\<open>HTTPError\<close> instead when the
  remote system answers with an error status.
\<close>

record 'a response =
  success :: bool
  status_code :: int
  Location :: "string option"
  json_data :: 'a

datatype 'a http = HTTPError | Resp "'a response"

text \<open>
  The JSON bodies, reduced to the members the module reads. An optional member is
  \<open>None\<close> when the key is absent (or null), which is what \<^verbatim>\<open>.get\<close> returns.
  \<open>RaidStatus\<close> of a drive is read with \<^verbatim>\<open>[...]\<close>, which raises \<^verbatim>\<open>KeyError\<close> for an
  absent key and returns \<^verbatim>\<open>None\<close> for a null: \<open>None\<close> is the absent key, \<open>Some None\<close>
  the null.
\<close>

record controller_json =
  SecurityStatus :: "string option"
  KeyID :: "string option"

record volumes_json =
  Members :: "string list option"

record drive_json =
  HotspareType :: "string option"
  RaidStatus :: "string option option"
  EncryptionAbility :: "string option"

record links_json =
  Drives :: "string list option"

record volume_json =
  Links :: "links_json option"
  LockStatus :: "string option"
  RAIDType :: "string option"
  CapacityBytes :: "int option"

record manager_json =
  DateTime :: "string option"
  DateTimeLocalOffset :: "string option"

record controllers_json =
  DellStorageController :: "(string \<times> pyval) list option"
  SupportedApplyTimes :: "string list"

record job_json =
  JobState :: "string option"
  PercentComplete :: "int option"
  Message :: "string option"

record disk_json =
  DiskRaidStatus :: "string option"
  SystemEraseCapability :: "string option"

record drive_detail_json =
  DellPhysicalDisk :: "disk_json option"
  DellPCIeSSD :: "disk_json option"

text \<open>
  The remote system as the module sees it during one invocation: what each read returns
  and how each write is answered. The body of a PATCH answer is reduced to the
  \<open>MessageId\<close> of its \<open>error\<close> member (\<open>None\<close> when there is no such member).

  The helpers of \<^verbatim>\<open>module_utils.utils\<close> are not part of the sources at hand, so what they
  deliver is a parameter: \<open>job_data\<close> is the job body that \<open>wait_for_job_completion\<close>
  followed by \<open>strip_substr_dict\<close> yields (by job URI, wait flag and timeout);
  \<open>first_resource_id_uri\<close> is the pair returned by
  \<open>validate_and_get_first_resource_id_uri\<close>; \<open>dynamic_uri_id\<close>, \<open>dynamic_uri_members\<close>,
  \<open>drive_detail\<close> and \<open>secure_erase_target\<close> are the results of \<open>get_dynamic_uri\<close> as
  \<open>secure_erase\<close> reads them; \<open>firmware_at_least_3_0\<close> is the comparison of
  \<open>get_idrac_firmware_version\<close> with 3.0; \<open>scheduled_job\<close> is the truth value of
  \<open>get_scheduled_job_resp\<close>. The requests these helpers issue are not recorded, except
  that a wait for a job is recorded as \<open>WAIT_FOR_JOB\<close>.
\<close>

record env =
  get_controller :: "string \<Rightarrow> controller_json http"
  get_volumes :: "string \<Rightarrow> volumes_json http"
  get_drive :: "string \<Rightarrow> drive_json http"
  get_volume :: "string \<Rightarrow> volume_json http"
  get_manager :: "string \<Rightarrow> manager_json http"
  get_controllers :: "string \<Rightarrow> controllers_json http"
  post :: "string \<Rightarrow> json option \<Rightarrow> unit http"
  patch :: "string \<Rightarrow> json \<Rightarrow> (string option option) http"
  job_data :: "string \<Rightarrow> bool \<Rightarrow> int \<Rightarrow> job_json"
  first_resource_id_uri :: "string \<times> string option"
  dynamic_uri_id :: "string \<Rightarrow> string \<Rightarrow> string"
  dynamic_uri_members :: "string \<Rightarrow> string \<Rightarrow> string list"
  drive_detail :: "string \<Rightarrow> drive_detail_json"
  firmware_at_least_3_0 :: bool
  scheduled_job :: "string \<Rightarrow> bool"
  secure_erase_target :: "string \<Rightarrow> string option"

text \<open>
  The keyword arguments of \<^verbatim>\<open>module.exit_json\<close>; \<open>task\<close> is the job handle (id, uri),
  \<open>error_info\<close> records only that a remote error body was attached.
\<close>

record outcome =
  msg :: "message option"
  status_msg :: "message option"
  changed :: bool
  failed :: bool
  skipped :: bool
  unreachable :: bool
  task :: "(string \<times> string) option"
  status :: "job_json option"
  error_info :: bool

definition exit0 :: outcome where
  "exit0 = \<lparr>msg = None, status_msg = None, changed = False, failed = False, skipped = False,
            unreachable = False, task = None, status = None, error_info = False\<rparr>"

text \<open>
  How a function stops early: \<^verbatim>\<open>module.exit_json\<close>, \<^verbatim>\<open>module.fail_json\<close>, or an
  exception that travels up to \<open>main\<close>.
\<close>

datatype exit = Exit_json outcome | Fail_json message | Raise py_exception

text \<open>
  A computation yields the requests it issued, in order, and either an early exit or a
  value.
\<close>

type_synonym 'a res = "request list \<times> (exit + 'a)"

definition ret :: "'a \<Rightarrow> 'a res" where
  "ret x = ([], Inr x)"

definition stop :: "exit \<Rightarrow> 'a res" where
  "stop e = ([], Inl e)"

definition exit_json :: "outcome \<Rightarrow> 'a res" where
  "exit_json out = stop (Exit_json out)"

definition fail_json :: "message \<Rightarrow> 'a res" where
  "fail_json m = stop (Fail_json m)"

definition and_then :: "'a res \<Rightarrow> ('a \<Rightarrow> 'b res) \<Rightarrow> 'b res" where
  "and_then m f =
     (case m of
        (t, Inl e) \<Rightarrow> (t, Inl e)
      | (t, Inr x) \<Rightarrow> (case f x of (t', r) \<Rightarrow> (t @ t', r)))"

text \<open>\<^verbatim>\<open>try: m  except HTTPError: h\<close>.\<close>

definition except_HTTPError :: "'a res \<Rightarrow> 'a res \<Rightarrow> 'a res" where
  "except_HTTPError m h =
     (case m of
        (t, Inl (Raise HTTPError_exc)) \<Rightarrow> (case h of (t', r) \<Rightarrow> (t @ t', r))
      | other \<Rightarrow> other)"

definition invoke_get :: "(string \<Rightarrow> 'a http) \<Rightarrow> string \<Rightarrow> 'a response res" where
  "invoke_get g uri =
     ([GET uri], case g uri of HTTPError \<Rightarrow> Inl (Raise HTTPError_exc) | Resp r \<Rightarrow> Inr r)"

definition invoke_post :: "env \<Rightarrow> string \<Rightarrow> json option \<Rightarrow> unit response res" where
  "invoke_post e uri data =
     ([POST uri data],
      case post e uri data of HTTPError \<Rightarrow> Inl (Raise HTTPError_exc) | Resp r \<Rightarrow> Inr r)"

definition invoke_patch :: "env \<Rightarrow> string \<Rightarrow> json \<Rightarrow> (string option option) response res" where
  "invoke_patch e uri data =
     ([PATCH uri data],
      case patch e uri data of HTTPError \<Rightarrow> Inl (Raise HTTPError_exc) | Resp r \<Rightarrow> Inr r)"

text \<open>
  The three lines that follow every action POST:
  \<^verbatim>\<open>job_uri = resp.headers.get("Location"); job_id = job_uri.split("/")[-1];
  return resp, job_uri, job_id\<close>.
\<close>

type_synonym job = "unit response \<times> string \<times> string"

definition job_of :: "unit response \<Rightarrow> job res" where
  "job_of resp =
     (case Location resp of
        None \<Rightarrow> stop (Raise AttributeError)
      | Some job_uri \<Rightarrow> ret (resp, job_uri, split_last CHR ''/'' job_uri))"

fun is_POST :: "request \<Rightarrow> bool" where
  "is_POST (POST u d) = True"
| "is_POST r = False"

fun is_PATCH :: "request \<Rightarrow> bool" where
  "is_PATCH (PATCH u d) = True"
| "is_PATCH r = False"

section \<open>The command functions\<close>

definition exit_msg :: "message \<Rightarrow> 'a res" where
  "exit_msg m = exit_json (exit0\<lparr>msg := Some m\<rparr>)"

definition exit_changed :: "message \<Rightarrow> 'a res" where
  "exit_changed m = exit_json (exit0\<lparr>msg := Some m, changed := True\<rparr>)"

definition exit_failed :: "message \<Rightarrow> 'a res" where
  "exit_failed m = exit_json (exit0\<lparr>msg := Some m, failed := True\<rparr>)"

text \<open>\<^verbatim>\<open>xs[0]\<close> of an optional list parameter.\<close>

fun first_of :: "'a list option \<Rightarrow> 'a res" where
  "first_of None = stop (Raise TypeError)"
| "first_of (Some []) = stop (Raise IndexError)"
| "first_of (Some (x # xs)) = ret x"

definition check_id_exists ::
  "env \<Rightarrow> string \<Rightarrow> string option \<Rightarrow> (string \<Rightarrow> string \<Rightarrow> string) \<Rightarrow> unit res" where
  "check_id_exists e k item_id uri =
     except_HTTPError
       (and_then (invoke_get (get_controller e) (uri SYSTEM_ID (fmt item_id)))
          (\<lambda>resp. if \<not> success resp then exit_failed (ID_NOT_FOUND k (fmt item_id)) else ret ()))
       (exit_json (exit0\<lparr>msg := Some (ID_NOT_FOUND k (fmt item_id)),
                         error_info := True, failed := True\<rparr>))"

text \<open>The branch on the command in \<open>ctrl_key\<close>: an early exit or the payload.\<close>

definition ctrl_key_payload ::
  "params \<Rightarrow> string option \<Rightarrow> string option \<Rightarrow> (string \<times> json) list res" where
  "ctrl_key_payload p security_status ctrl_key_id =
     (if command p = Some SetControllerKey then
        (if check_mode p \<and> ctrl_key_id = None then exit_changed CHANGES_FOUND
         else if (check_mode p \<and> ctrl_key_id \<noteq> None) \<or> (\<not> check_mode p \<and> ctrl_key_id \<noteq> None)
         then exit_msg NO_CHANGES_FOUND
         else ret [(''TargetFQDD'', JOpt (controller_id p)), (''Key'', JOpt (key p)),
                   (''Keyid'', JOpt (key_id p))])
      else if command p = Some ReKey then
        (if check_mode p then exit_changed CHANGES_FOUND
         else if mode p = LKM
         then ret [(''TargetFQDD'', JOpt (controller_id p)),
                   (''Mode'', JVal (PStr (mode_name (mode p)))), (''NewKey'', JOpt (key p)),
                   (''Keyid'', JOpt (key_id p)), (''OldKey'', JOpt (old_key p))]
         else ret [(''TargetFQDD'', JOpt (controller_id p)),
                   (''Mode'', JVal (PStr (mode_name (mode p))))])
      else if command p = Some RemoveControllerKey then
        (if check_mode p \<and> ctrl_key_id \<noteq> None then exit_changed CHANGES_FOUND
         else if (check_mode p \<and> ctrl_key_id = None) \<or> (\<not> check_mode p \<and> ctrl_key_id = None)
         then exit_msg NO_CHANGES_FOUND
         else ret [(''TargetFQDD'', JOpt (controller_id p))])
      else if command p = Some EnableControllerEncryption then
        (if check_mode p \<and> \<not> security_status = Some ''SecurityKeyAssigned''
         then exit_changed CHANGES_FOUND
         else if (check_mode p \<and> security_status = Some ''SecurityKeyAssigned'')
               \<or> (\<not> check_mode p \<and> security_status = Some ''SecurityKeyAssigned'')
         then exit_msg NO_CHANGES_FOUND
         else ret ([(''TargetFQDD'', JOpt (controller_id p)),
                    (''Mode'', JVal (PStr (mode_name (mode p))))]
                   @ (if mode p = LKM
                      then [(''Key'', JOpt (key p)), (''Keyid'', JOpt (key_id p))] else [])))
      else ret [])"

definition ctrl_key :: "env \<Rightarrow> params \<Rightarrow> job res" where
  "ctrl_key e p =
     and_then (check_id_exists e ''controller_id'' (controller_id p) CONTROLLER_URI) (\<lambda>u.
     and_then (invoke_get (get_controller e)
                 (CONTROLLER_URI SYSTEM_ID (fmt (controller_id p)))) (\<lambda>ctrl_resp.
       if SecurityStatus (json_data ctrl_resp) = Some ''EncryptionNotCapable''
       then fail_json (ENCRYPT_ERR_MSG (fmt (controller_id p)))
       else
         and_then (ctrl_key_payload p (SecurityStatus (json_data ctrl_resp))
                     (KeyID (json_data ctrl_resp))) (\<lambda>payload.
         and_then (invoke_post e (RAID_ACTION_URI SYSTEM_ID (fmt_command (command p)))
                     (Some (JObj payload))) job_of)))"

text \<open>\<^verbatim>\<open>members\<close> is tested for truth: absent, null and the empty list are false.\<close>

definition ctrl_reset_config :: "env \<Rightarrow> params \<Rightarrow> job res" where
  "ctrl_reset_config e p =
     and_then (check_id_exists e ''controller_id'' (controller_id p) CONTROLLER_URI) (\<lambda>u.
     and_then (invoke_get (get_volumes e)
                 (VOLUME_URI SYSTEM_ID (fmt (controller_id p)))) (\<lambda>member_resp.
       let members = (Members (json_data member_resp) \<noteq> None
                      \<and> Members (json_data member_resp) \<noteq> Some [])
       in if check_mode p \<and> members then exit_changed CHANGES_FOUND
          else if (check_mode p \<and> \<not> members) \<or> (\<not> check_mode p \<and> \<not> members)
          then exit_msg NO_CHANGES_FOUND
          else and_then (invoke_post e (RAID_ACTION_URI SYSTEM_ID (fmt_command (command p)))
                           (Some (JObj [(''TargetFQDD'', JOpt (controller_id p))]))) job_of))"

definition hot_spare_config :: "env \<Rightarrow> params \<Rightarrow> job res" where
  "hot_spare_config e p =
     and_then (first_of (target p)) (\<lambda>drive_id.
     and_then (except_HTTPError
                 (invoke_get (get_drive e) (PD_URI (split_last CHR '':'' drive_id) drive_id))
                 (fail_json (PD_ERROR_MSG drive_id))) (\<lambda>pd_resp.
       let hot_spare = HotspareType (json_data pd_resp)
       in if (check_mode p \<and> hot_spare = Some ''None'' \<and> command p = Some AssignSpare)
             \<or> (check_mode p \<and> \<not> hot_spare = Some ''None'' \<and> command p = Some UnassignSpare)
          then exit_changed CHANGES_FOUND
          else if (check_mode p \<and> hot_spare \<in> set [Some ''Dedicated'', Some ''Global'']
                    \<and> command p = Some AssignSpare)
                \<or> (\<not> check_mode p \<and> hot_spare \<in> set [Some ''Dedicated'', Some ''Global'']
                    \<and> command p = Some AssignSpare)
                \<or> (check_mode p \<and> hot_spare = Some ''None'' \<and> command p = Some UnassignSpare)
                \<or> (\<not> check_mode p \<and> hot_spare = Some ''None''
                    \<and> command p = Some UnassignSpare)
          then exit_msg NO_CHANGES_FOUND
          else and_then (invoke_post e (RAID_ACTION_URI SYSTEM_ID (fmt_command (command p)))
                           (Some (JObj ([(''TargetFQDD'', JOpt (Some drive_id))]
                              @ (if volume_id p \<noteq> None \<and> command p = Some AssignSpare
                                 then [(''VirtualDiskArray'', JOptStrs (volume_id p))]
                                 else []))))) job_of))"

definition change_pd_status :: "env \<Rightarrow> params \<Rightarrow> job res" where
  "change_pd_status e p =
     and_then (first_of (target p)) (\<lambda>drive_id.
     let state = (if command p = Some ChangePDStateToOnline then ''Online'' else ''Offline'')
     in
     and_then (except_HTTPError
                 (and_then (invoke_get (get_drive e)
                              (PD_URI (split_last CHR '':'' drive_id) drive_id)) (\<lambda>pd_resp.
                    case RaidStatus (json_data pd_resp) of
                      None \<Rightarrow> stop (Raise KeyError)
                    | Some rs \<Rightarrow> ret rs))
                 (fail_json (PD_ERROR_MSG drive_id))) (\<lambda>raid_status.
       if check_mode p \<and> \<not> Some state = raid_status then exit_changed CHANGES_FOUND
       else if (check_mode p \<and> Some state = raid_status)
             \<or> (\<not> check_mode p \<and> Some state = raid_status)
       then exit_msg NO_CHANGES_FOUND
       else and_then (invoke_post e (RAID_ACTION_URI SYSTEM_ID ''ChangePDState'')
                        (Some (JObj [(''TargetFQDD'', JOpt (Some drive_id)),
                                     (''State'', JVal (PStr state))]))) job_of))"

text \<open>
  The loop of \<open>convert_raid_status\<close> over the targets, with its handler: a read that fails
  stops the loop with the message that names the drive at hand.
\<close>

fun pd_ready_states :: "env \<Rightarrow> string list \<Rightarrow> string option list res" where
  "pd_ready_states e [] = ret []"
| "pd_ready_states e (ctrl # rest) =
     and_then (except_HTTPError
                 (and_then (invoke_get (get_drive e)
                              (PD_URI (split_last CHR '':'' ctrl) ctrl)) (\<lambda>pd_resp.
                    case RaidStatus (json_data pd_resp) of
                      None \<Rightarrow> stop (Raise KeyError)
                    | Some rs \<Rightarrow> ret rs))
                 (fail_json (PD_ERROR_MSG ctrl))) (\<lambda>raid_status.
     and_then (pd_ready_states e rest) (\<lambda>others. ret (raid_status # others)))"

definition convert_raid_status :: "env \<Rightarrow> params \<Rightarrow> job res" where
  "convert_raid_status e p =
     (case target p of
        None \<Rightarrow> stop (Raise TypeError)
      | Some tg \<Rightarrow>
          and_then (pd_ready_states e tg) (\<lambda>pd_ready_state.
            if (command p = Some ConvertToRAID \<and> check_mode p
                  \<and> 0 < count_list pd_ready_state (Some ''NonRAID''))
               \<or> (command p = Some ConvertToNonRAID \<and> check_mode p
                  \<and> 0 < count_list pd_ready_state (Some ''Ready''))
            then exit_changed CHANGES_FOUND
            else if (command p = Some ConvertToRAID \<and> check_mode p
                       \<and> length pd_ready_state = count_list pd_ready_state (Some ''Ready''))
                  \<or> (command p = Some ConvertToRAID \<and> \<not> check_mode p
                       \<and> length pd_ready_state = count_list pd_ready_state (Some ''Ready''))
                  \<or> (command p = Some ConvertToNonRAID \<and> check_mode p
                       \<and> length pd_ready_state = count_list pd_ready_state (Some ''NonRAID''))
                  \<or> (command p = Some ConvertToNonRAID \<and> \<not> check_mode p
                       \<and> length pd_ready_state = count_list pd_ready_state (Some ''NonRAID''))
            then exit_msg NO_CHANGES_FOUND
            else and_then (invoke_post e (RAID_ACTION_URI SYSTEM_ID (fmt_command (command p)))
                             (Some (JObj [(''PDArray'', JStrs tg)]))) job_of))"

text \<open>The payload is built, and its \<^verbatim>\<open>[0]\<close> read, before check mode is looked at.\<close>

definition target_identify_pattern :: "env \<Rightarrow> params \<Rightarrow> unit response res" where
  "target_identify_pattern e p =
     and_then
       (if target p \<noteq> None \<and> volume_id p = None
        then and_then (first_of (target p)) (\<lambda>x. ret (Some x))
        else if volume_id p \<noteq> None \<and> target p = None
        then and_then (first_of (volume_id p)) (\<lambda>x. ret (Some x))
        else if target p \<noteq> None \<and> volume_id p \<noteq> None
        then and_then (first_of (target p)) (\<lambda>x. ret (Some x))
        else ret None) (\<lambda>fqdd.
     if check_mode p then exit_changed CHANGES_FOUND
     else invoke_post e (RAID_ACTION_URI SYSTEM_ID (fmt_command (command p)))
            (Some (JObj [(''TargetFQDD'', JOpt fqdd)])))"

text \<open>The loop of \<open>lock_virtual_disk\<close> over the drives linked to the volume.\<close>

fun encryption_ability_check :: "env \<Rightarrow> string list \<Rightarrow> unit res" where
  "encryption_ability_check e [] = ret ()"
| "encryption_ability_check e (drive_link # rest) =
     and_then (invoke_get (get_drive e) drive_link) (\<lambda>drive_resp.
       if EncryptionAbility (json_data drive_resp) \<noteq> Some ''SelfEncryptingDrive''
       then fail_json PHYSICAL_DISK_ERR
       else encryption_ability_check e rest)"

definition lock_virtual_disk :: "env \<Rightarrow> params \<Rightarrow> job res" where
  "lock_virtual_disk e p =
     and_then (first_of (volume_id p)) (\<lambda>vol.
     and_then (check_id_exists e ''controller_id'' (Some (split_last CHR '':'' vol))
                 CONTROLLER_URI) (\<lambda>u.
     and_then (except_HTTPError
                 (and_then (invoke_get (get_volume e)
                              (VOLUME_URI SYSTEM_ID (split_last CHR '':'' vol) @ ''/'' @ vol))
                    (\<lambda>volume_resp.
                  and_then (case Links (json_data volume_resp) of
                              None \<Rightarrow> ret ()
                            | Some links \<Rightarrow>
                                (case Drives links of
                                   None \<Rightarrow> stop (Raise TypeError)
                                 | Some ds \<Rightarrow> encryption_ability_check e ds)) (\<lambda>u.
                  ret (LockStatus (json_data volume_resp)))))
                 (fail_json (PD_ERROR_MSG (split_last CHR '':'' vol)))) (\<lambda>lock_status.
       if lock_status = Some ''Unlocked'' \<and> check_mode p then exit_changed CHANGES_FOUND
       else if lock_status = Some ''Locked'' then exit_msg NO_CHANGES_FOUND
       else and_then (invoke_post e (RAID_ACTION_URI SYSTEM_ID ''LockVirtualDisk'')
                        (Some (JObj [(''TargetFQDD'', JOpt (Some vol))]))) job_of)))"

text \<open>
  \<^verbatim>\<open>len(drives_to_add) % OCE_MIN_PD_RAID_MAPPING[raid_type] == 0\<close>, which raises
  \<^verbatim>\<open>KeyError\<close> for a RAID type outside the table.
\<close>

definition oce_divisible :: "string list \<Rightarrow> string option \<Rightarrow> bool res" where
  "oce_divisible drives_to_add raid_type =
     (case OCE_MIN_PD_RAID_MAPPING raid_type of
        None \<Rightarrow> stop (Raise KeyError)
      | Some m \<Rightarrow> ret (length drives_to_add mod m = 0))"

text \<open>
  The part of \<open>online_capacity_expansion\<close> between the RAID50/RAID60 test and the POST:
  an early exit or the payload. \<^verbatim>\<open>and\<close> and \<^verbatim>\<open>or\<close> evaluate their right operand only
  when needed, so the table is looked up only for a non-empty \<open>drives_to_add\<close>.
\<close>

definition oce_payload :: "params \<Rightarrow> string \<Rightarrow> volume_json \<Rightarrow> json option res" where
  "oce_payload p vol vj =
     (case target p of
        Some tg \<Rightarrow>
          if tg = [] then exit_failed OCE_TARGET_EMPTY
          else if RAIDType vj = Some ''RAID1'' then fail_json OCE_TARGET_RAID1_ERR
          else
            and_then (case Links vj of
                        None \<Rightarrow> ret []
                      | Some links \<Rightarrow>
                          (case Drives links of
                             None \<Rightarrow> stop (Raise TypeError)
                           | Some ds \<Rightarrow> ret (map (split_last CHR ''/'') ds))) (\<lambda>current_pd.
            let drives_to_add = filter (\<lambda>each_drive. each_drive \<notin> set current_pd) tg in
            and_then (if check_mode p \<and> drives_to_add \<noteq> []
                      then oce_divisible drives_to_add (RAIDType vj) else ret False) (\<lambda>c1.
            if c1 then exit_changed CHANGES_FOUND
            else
              and_then (if length drives_to_add = 0 then ret True
                        else and_then (oce_divisible drives_to_add (RAIDType vj))
                               (\<lambda>d. ret (\<not> d))) (\<lambda>c2.
              if c2 then exit_msg NO_CHANGES_FOUND
              else ret (Some (JObj [(''TargetFQDD'', JOpt (Some vol)),
                                    (''PDArray'', JStrs drives_to_add)])))))
      | None \<Rightarrow>
          (case size_mb p of
             None \<Rightarrow> ret None
           | Some sz \<Rightarrow>
               if sz = 0 then ret None
               else
                 (case CapacityBytes vj of
                    None \<Rightarrow> stop (Raise TypeError)
                  | Some vd_size \<Rightarrow>
                      let vd_size_MB = vd_size div (1024 * 1024) in
                      if sz - vd_size_MB < 100 then exit_failed (OCE_SIZE_100MB vd_size_MB)
                      else ret (Some (JObj [(''TargetFQDD'', JOpt (Some vol)),
                                            (''Size'', JVal (PInt sz))])))))"

definition online_capacity_expansion :: "env \<Rightarrow> params \<Rightarrow> job res" where
  "online_capacity_expansion e p =
     (case volume_id p of
        None \<Rightarrow> stop (Raise AttributeError)
      | Some [] \<Rightarrow> exit_failed (TARGET_ERR_MSG ''virtual drive'')
      | Some (v1 # v2 # vs) \<Rightarrow> exit_failed (TARGET_ERR_MSG ''virtual drive'')
      | Some [vol] \<Rightarrow>
          and_then (except_HTTPError
                      (invoke_get (get_volume e)
                         (VOLUME_URI SYSTEM_ID (split_last CHR '':'' vol) @ ''/'' @ vol))
                      (exit_failed (VD_ERROR_MSG vol))) (\<lambda>volume_resp.
          except_HTTPError
            (if RAIDType (json_data volume_resp) \<in> set [Some ''RAID50'', Some ''RAID60'']
             then exit_failed (OCE_RAID_TYPE_ERR (fmt (RAIDType (json_data volume_resp))))
             else
               and_then (oce_payload p vol (json_data volume_resp)) (\<lambda>payload.
               and_then (invoke_post e (RAID_ACTION_URI SYSTEM_ID ''OnlineCapacityExpansion'')
                           payload) job_of))
            (exit_failed REMOTE_MESSAGE)))"

text \<open>\<open>match_id_in_list\<close>: the first URL that has \<open>id\<close> as a substring.\<close>

definition match_id_in_list :: "string \<Rightarrow> string list \<Rightarrow> string option" where
  "match_id_in_list ident member_list = find (contains ident) member_list"

definition validate_secure_erase :: "env \<Rightarrow> params \<Rightarrow> (string \<times> string) res" where
  "validate_secure_erase e p =
     and_then (first_of (target p)) (\<lambda>drive_id.
     case first_resource_id_uri e of (uri, err_msg) \<Rightarrow>
     if err_msg \<noteq> None \<and> err_msg \<noteq> Some [] then exit_failed REMOTE_MESSAGE
     else
       (case controller_id p of
          None \<Rightarrow>
            if dynamic_uri_members e (dynamic_uri_id e uri ''Storage'') ''Members'' = []
            then exit_failed (CNTRL_ERROR_MSG ''None'')
            else stop (Raise TypeError)
        | Some cid \<Rightarrow>
           (case match_id_in_list cid
                   (dynamic_uri_members e (dynamic_uri_id e uri ''Storage'') ''Members'') of
              None \<Rightarrow> exit_failed (CNTRL_ERROR_MSG cid)
            | Some controller_uri \<Rightarrow>
               (case match_id_in_list drive_id
                       (dynamic_uri_members e controller_uri ''Drives'') of
                  None \<Rightarrow> exit_msg (PD_ERROR_MSG drive_id)
                | Some drive_uri \<Rightarrow>
                    if firmware_at_least_3_0 e then
                      (let dell_disk =
                             (case DellPhysicalDisk (drive_detail e drive_uri) of
                                Some d \<Rightarrow> Some d
                              | None \<Rightarrow> DellPCIeSSD (drive_detail e drive_uri));
                           drive_ready =
                             (case dell_disk of None \<Rightarrow> None | Some d \<Rightarrow> DiskRaidStatus d);
                           capable =
                             (case dell_disk of
                                None \<Rightarrow> None | Some d \<Rightarrow> SystemEraseCapability d)
                       in if drive_ready \<noteq> Some ''Ready''
                          then exit_json (exit0\<lparr>msg := Some (DRIVE_NOT_READY drive_id),
                                               skipped := True\<rparr>)
                          else if capable \<noteq> Some ''CryptographicErasePD''
                          then exit_json (exit0\<lparr>msg := Some (DRIVE_NOT_SECURE_ERASE drive_id),
                                               skipped := True\<rparr>)
                          else ret (drive_uri, ''RealTimeNoRebootConfiguration''))
                    else ret (drive_uri, ''RealTimeNoRebootConfiguration'')))))"

definition secure_erase :: "env \<Rightarrow> params \<Rightarrow> job res" where
  "secure_erase e p =
     and_then (validate_secure_erase e p) (\<lambda>(drive_uri, job_type).
       if scheduled_job e job_type then exit_msg JOB_EXISTS
       else
         (case secure_erase_target e drive_uri of
            None \<Rightarrow> stop (Raise AttributeError)
          | Some secure_erase_uri \<Rightarrow>
              and_then (invoke_post e secure_erase_uri (Some (JRaw ''{}''))) job_of))"

definition str_truthy :: "string option \<Rightarrow> bool" where
  "str_truthy s = (s \<noteq> None \<and> s \<noteq> Some [])"

definition validate_inputs :: "params \<Rightarrow> unit res" where
  "validate_inputs p =
     (if command p = Some ReKey \<and> mode p = LKM then
        (if \<not> (str_truthy (key p) \<and> str_truthy (key_id p) \<and> str_truthy (old_key p))
         then fail_json (REQUIRED_ALL [''key'', ''key_id'', ''old_key''] ''ReKey'')
         else ret ())
      else if command p = Some EnableControllerEncryption \<and> mode p = LKM then
        (if \<not> (str_truthy (key p) \<and> str_truthy (key_id p))
         then fail_json (REQUIRED_ALL [''key'', ''key_id''] ''EnableControllerEncryption'')
         else ret ())
      else if command p \<in> set [Some AssignSpare, Some UnassignSpare, Some BlinkTarget,
                                Some UnBlinkTarget, Some LockVirtualDisk] then
        (if (case target p of None \<Rightarrow> False | Some tg \<Rightarrow> \<not> 1 \<ge> length tg)
         then fail_json (TARGET_ERR_MSG ''physical disk'')
         else if (case volume_id p of None \<Rightarrow> False | Some vs \<Rightarrow> \<not> 1 \<ge> length vs)
         then fail_json (TARGET_ERR_MSG ''virtual drive'')
         else ret ())
      else if command p \<in> set [Some ChangePDStateToOnline, Some ChangePDStateToOffline,
                                Some SecureErase] then
        (if (case target p of None \<Rightarrow> False | Some tg \<Rightarrow> \<not> 1 \<ge> length tg)
         then fail_json (TARGET_ERR_MSG ''physical disk'')
         else ret ())
      else ret ())"

section \<open>The attribute settings\<close>

text \<open>\<open>get_current_time\<close> swallows every exception and then returns a pair of \<open>None\<close>.\<close>

definition get_current_time :: "env \<Rightarrow> (string option \<times> string option) res" where
  "get_current_time e =
     ([GET MANAGER_URI],
      Inr (case get_manager e MANAGER_URI of
             HTTPError \<Rightarrow> (None, None)
           | Resp r \<Rightarrow> (DateTime (json_data r), DateTimeLocalOffset (json_data r))))"

definition validate_time :: "env \<Rightarrow> string \<Rightarrow> unit res" where
  "validate_time e mtime =
     and_then (get_current_time e) (\<lambda>(curr_time, date_offset).
       case date_offset of
         None \<Rightarrow> stop (Raise TypeError)
       | Some off \<Rightarrow>
           if \<not> endswith mtime off
           then exit_json (exit0\<lparr>failed := True, status_msg := Some (MAINTENANCE_OFFSET off)\<rparr>)
           else
             (case curr_time of
                None \<Rightarrow> stop (Raise TypeError)
              | Some ct \<Rightarrow>
                  if str_less mtime ct
                  then exit_json (exit0\<lparr>failed := True, status_msg := Some MAINTENANCE_TIME\<rparr>)
                  else ret ()))"

definition get_attributes :: "env \<Rightarrow> params \<Rightarrow> controllers_json option res" where
  "get_attributes e p =
     ([GET (CONTROLLERS_URI SYSTEM_ID (fmt (controller_id p)))],
      Inr (case get_controllers e (CONTROLLERS_URI SYSTEM_ID (fmt (controller_id p))) of
             HTTPError \<Rightarrow> None
           | Resp r \<Rightarrow> Some (json_data r)))"

text \<open>
  The loop of \<open>check_attr_exists\<close> over the requested attributes, with its three
  accumulators \<open>invalid_attr\<close>, \<open>pending_attr\<close> and \<open>diff\<close>.
\<close>

fun attr_loop ::
  "(string \<times> pyval) list \<Rightarrow> (string \<times> pyval) list \<Rightarrow> string list \<Rightarrow> (string \<times> pyval) list
     \<Rightarrow> bool \<Rightarrow> string list \<times> (string \<times> pyval) list \<times> bool" where
  "attr_loop curr_attr [] invalid_attr pending_attr diff = (invalid_attr, pending_attr, diff)"
| "attr_loop curr_attr ((each, v) # rest) invalid_attr pending_attr diff =
     (case map_of curr_attr each of
        None \<Rightarrow> attr_loop curr_attr rest (invalid_attr @ [each]) pending_attr diff
      | Some c \<Rightarrow>
          if \<not> py_eq c v
          then attr_loop curr_attr rest invalid_attr (pending_attr @ [(each, v)]) True
          else attr_loop curr_attr rest invalid_attr pending_attr diff)"

text \<open>
  When the controller body has no \<open>DellStorageController\<close> member, \<open>curr_attr\<close> is
  \<open>None\<close> and the first round of the loop raises \<^verbatim>\<open>AttributeError\<close>.
\<close>

definition check_attr_exists ::
  "params \<Rightarrow> (string \<times> pyval) list option \<Rightarrow> (string \<times> pyval) list
     \<Rightarrow> (string \<times> pyval) list res" where
  "check_attr_exists p curr_attr inp_attr =
     (case curr_attr of
        None \<Rightarrow> if inp_attr = [] then exit_msg NO_CHANGES_FOUND else stop (Raise AttributeError)
      | Some ca \<Rightarrow>
          (case attr_loop ca inp_attr [] [] False of
             (invalid_attr, pending_attr, diff) \<Rightarrow>
               if invalid_attr \<noteq> [] then exit_failed (INVALID_ATTRIBUTES invalid_attr)
               else if diff \<and> check_mode p then exit_changed CHANGES_FOUND
               else if \<not> diff then exit_msg NO_CHANGES_FOUND
               else ret pending_attr))"

definition get_redfish_apply_time ::
  "env \<Rightarrow> params \<Rightarrow> string \<Rightarrow> string list \<Rightarrow> (string \<times> json) list res" where
  "get_redfish_apply_time e p apply_t time_settings =
     (if time_settings \<noteq> [] then
        (if contains ''Maintenance'' apply_t then
           (if apply_t \<notin> set time_settings
            then exit_json (exit0\<lparr>failed := True,
                                 status_msg := Some (UNSUPPORTED_APPLY_TIME apply_t)\<rparr>)
            else
              (case maintenance_window p of
                 None \<Rightarrow> stop (Raise AttributeError)
               | Some (start_time, duration) \<Rightarrow>
                   and_then (validate_time e start_time) (\<lambda>u.
                     ret [(''ApplyTime'', JVal (PStr apply_t)),
                          (''MaintenanceWindowStartTime'', JVal (PStr start_time)),
                          (''MaintenanceWindowDurationInSeconds'', JVal (PInt duration))])))
         else ret [(''ApplyTime'', JVal (PStr apply_t))])
      else ret [])"

definition apply_attributes ::
  "env \<Rightarrow> params \<Rightarrow> (string \<times> pyval) list \<Rightarrow> string list
     \<Rightarrow> (string \<times> (string \<times> json) list) res" where
  "apply_attributes e p pending time_settings =
     and_then (get_redfish_apply_time e p (apply_time p) time_settings) (\<lambda>time_set.
     and_then
       (except_HTTPError
          (and_then
             (invoke_patch e (SETTINGS_URI SYSTEM_ID (fmt (controller_id p)))
                (JObj ([(''Oem'', JObj [(''Dell'', JObj [(''DellStorageController'',
                           JObj (map (\<lambda>(k, v). (k, JVal v)) pending))])])]
                       @ (if time_set \<noteq> []
                          then [(''@Redfish.SettingsApplyTime'', JObj time_set)] else []))))
             (\<lambda>resp.
                if status_code resp = 202 then
                  (case json_data resp of
                     None \<Rightarrow> ret resp
                   | Some None \<Rightarrow> stop (Raise TypeError)
                   | Some (Some msg_err_id) \<Rightarrow>
                       if \<not> contains ''Created'' msg_err_id
                       then exit_json (exit0\<lparr>msg := Some ERR_MSG, error_info := True,
                                            failed := True\<rparr>)
                       else ret resp)
                else ret resp))
          (exit_json (exit0\<lparr>msg := Some ERR_MSG, error_info := True, failed := True\<rparr>)))
       (\<lambda>resp.
          case Location resp of
            None \<Rightarrow> stop (Raise KeyError)
          | Some loc \<Rightarrow> ret (split_last CHR ''/'' loc, time_set)))"

text \<open>
  \<^verbatim>\<open>inp_attr.get("ControllerMode")\<close> is tested for truth: the guard looks at the value
  requested for \<open>ControllerMode\<close>, not at the presence of the name.
\<close>

definition set_attributes :: "env \<Rightarrow> params \<Rightarrow> (string \<times> (string \<times> json) list) res" where
  "set_attributes e p =
     and_then (get_attributes e p) (\<lambda>resp_data.
       case resp_data of
         None \<Rightarrow> stop (Raise AttributeError)
       | Some rd \<Rightarrow>
           (case attributes p of
              None \<Rightarrow> stop (Raise AttributeError)
            | Some inp_attr \<Rightarrow>
                if (case map_of inp_attr ''ControllerMode'' of
                      None \<Rightarrow> False | Some v \<Rightarrow> truthy v)
                   \<and> length inp_attr > 1
                then exit_failed HBA_MODE
                else
                  and_then (check_attr_exists p (DellStorageController rd) inp_attr)
                    (\<lambda>pending. apply_attributes e p pending (SupportedApplyTimes rd))))"

section \<open>The dispatcher\<close>

text \<open>
  The chain on the command in \<open>main\<close>. The blink commands bind no job, so the value is
  optional: \<open>None\<close> stands for \<open>job_id\<close> not being bound.
\<close>

definition run_command :: "env \<Rightarrow> params \<Rightarrow> job option res" where
  "run_command e p =
     (if command p = Some ResetConfig
      then and_then (ctrl_reset_config e p) (\<lambda>j. ret (Some j))
      else if command p \<in> set [Some SetControllerKey, Some ReKey, Some RemoveControllerKey,
                                Some EnableControllerEncryption]
      then and_then (ctrl_key e p) (\<lambda>j. ret (Some j))
      else if command p \<in> set [Some AssignSpare, Some UnassignSpare]
      then and_then (hot_spare_config e p) (\<lambda>j. ret (Some j))
      else if command p \<in> set [Some BlinkTarget, Some UnBlinkTarget]
      then and_then (target_identify_pattern e p) (\<lambda>resp.
             if success resp \<and> status_code resp = 200
             then exit_changed (JOB_COMPLETION (fmt_command (command p)))
             else ret None)
      else if command p \<in> set [Some ConvertToRAID, Some ConvertToNonRAID]
      then and_then (convert_raid_status e p) (\<lambda>j. ret (Some j))
      else if command p \<in> set [Some ChangePDStateToOnline, Some ChangePDStateToOffline]
      then and_then (change_pd_status e p) (\<lambda>j. ret (Some j))
      else if command p = Some LockVirtualDisk
      then and_then (lock_virtual_disk e p) (\<lambda>j. ret (Some j))
      else if command p = Some OnlineCapacityExpansion
      then and_then (online_capacity_expansion e p) (\<lambda>j. ret (Some j))
      else if command p = Some SecureErase
      then and_then (secure_erase e p) (\<lambda>j. ret (Some j))
      else ret None)"

definition attributes_given :: "params \<Rightarrow> bool" where
  "attributes_given p = (attributes p \<noteq> None \<and> attributes p \<noteq> Some [])"

text \<open>The block of \<open>main\<close> under \<^verbatim>\<open>if module.params["attributes"]\<close>; every path exits.\<close>

definition attributes_flow :: "env \<Rightarrow> params \<Rightarrow> unit res" where
  "attributes_flow e p =
     (if controller_id p = None then exit_failed CONTROLLER_ID_REQUIRED
      else
        and_then (check_id_exists e ''controller_id'' (controller_id p) CONTROLLER_URI) (\<lambda>u.
        and_then (set_attributes e p) (\<lambda>(job_id, time_set).
          case map_of time_set ''ApplyTime'' of
            None \<Rightarrow> stop (Raise KeyError)
          | Some a \<Rightarrow>
              if a = JVal (PStr ''Immediate'') \<and> job_wait p then
                ([WAIT_FOR_JOB (JOB_URI_OEM job_id) (job_wait p) (job_wait_timeout p)],
                 case JobState (job_data e (JOB_URI_OEM job_id) (job_wait p)
                                  (job_wait_timeout p)) of
                   None \<Rightarrow> Inl (Raise KeyError)
                 | Some st \<Rightarrow>
                     Inl (Exit_json (exit0\<lparr>msg := Some JOB_COMPLETION_ATTRIBUTES,
                            task := Some (job_id, JOB_URI_OEM job_id),
                            status := Some (job_data e (JOB_URI_OEM job_id) (job_wait p)
                                              (job_wait_timeout p)),
                            changed := (if st = ''Failed'' then False else True),
                            failed := (if st = ''Failed'' then True else False)\<rparr>)))
              else
                ([WAIT_FOR_JOB (JOB_URI_OEM job_id) False (job_wait_timeout p)],
                 Inl (Exit_json (exit0\<lparr>msg := Some JOB_SUBMISSION_ATTRIBUTES,
                        task := Some (job_id, JOB_URI_OEM job_id),
                        status := Some (job_data e (JOB_URI_OEM job_id) False
                                          (job_wait_timeout p))\<rparr>))))))"

text \<open>The end of \<open>main\<close>, from \<^verbatim>\<open>oem_job_url = JOB_URI_OEM.format(job_id=job_id)\<close> on.\<close>

definition job_tracking :: "env \<Rightarrow> params \<Rightarrow> job option \<Rightarrow> unit res" where
  "job_tracking e p j =
     (case j of
        None \<Rightarrow> stop (Raise UnboundLocalError)
      | Some (resp, job_uri, job_id) \<Rightarrow>
          if job_wait p then
            ([WAIT_FOR_JOB (JOB_URI_OEM job_id) (job_wait p) (job_wait_timeout p)],
             case JobState (job_data e (JOB_URI_OEM job_id) (job_wait p)
                              (job_wait_timeout p)) of
               None \<Rightarrow> Inl (Raise KeyError)
             | Some st \<Rightarrow>
                 Inl (Exit_json (exit0\<lparr>msg := Some (JOB_COMPLETION (fmt_command (command p))),
                        task := Some (job_id, JOB_URI_OEM job_id),
                        status := Some (job_data e (JOB_URI_OEM job_id) (job_wait p)
                                          (job_wait_timeout p)),
                        changed := (if st = ''Failed'' then False else True),
                        failed := (if st = ''Failed'' then True else False)\<rparr>)))
          else
            ([WAIT_FOR_JOB (JOB_URI_OEM job_id) (job_wait p) (job_wait_timeout p)],
             Inl (Exit_json (exit0\<lparr>msg := Some (JOB_SUBMISSION (fmt_command (command p))),
                    task := Some (job_id, JOB_URI_OEM job_id),
                    status := Some (job_data e (JOB_URI_OEM job_id) (job_wait p)
                                      (job_wait_timeout p))\<rparr>))))"

text \<open>
  The \<^verbatim>\<open>except\<close> clauses of \<open>main\<close>: \<^verbatim>\<open>HTTPError\<close>, \<^verbatim>\<open>KeyError\<close>, \<^verbatim>\<open>TypeError\<close> and
  \<^verbatim>\<open>AttributeError\<close> end in \<^verbatim>\<open>fail_json\<close>; the other exceptions of the model are not
  listed there and leave \<open>main\<close> as they are.
\<close>

definition main_except :: "'a res \<Rightarrow> 'a res" where
  "main_except m =
     (case m of
        (t, Inl (Raise x)) \<Rightarrow>
          if x \<in> set [HTTPError_exc, KeyError, TypeError, AttributeError]
          then (t, Inl (Fail_json (STR_OF x)))
          else (t, Inl (Raise x))
      | other \<Rightarrow> other)"

definition main :: "env \<Rightarrow> params \<Rightarrow> unit res" where
  "main e p =
     and_then (if \<not> attributes_given p then validate_inputs p else ret ()) (\<lambda>u.
       main_except
         (and_then (run_command e p) (\<lambda>j.
            if attributes_given p then attributes_flow e p else job_tracking e p j)))"

section \<open>Snapshots, target states and guards\<close>

text \<open>
  The state a command reads before it decides. A snapshot is \<open>None\<close> when the read
  fails; for a controller also when \<open>check_id_exists\<close> would reject the answer.
\<close>

definition controller_snapshot :: "env \<Rightarrow> string option \<Rightarrow> controller_json option" where
  "controller_snapshot e cid =
     (case get_controller e (CONTROLLER_URI SYSTEM_ID (fmt cid)) of
        HTTPError \<Rightarrow> None
      | Resp r \<Rightarrow> if success r then Some (json_data r) else None)"

definition members_snapshot :: "env \<Rightarrow> string option \<Rightarrow> string list option option" where
  "members_snapshot e cid =
     (case get_volumes e (VOLUME_URI SYSTEM_ID (fmt cid)) of
        HTTPError \<Rightarrow> None
      | Resp r \<Rightarrow> Some (Members (json_data r)))"

definition drive_snapshot :: "env \<Rightarrow> string \<Rightarrow> drive_json option" where
  "drive_snapshot e uri =
     (case get_drive e uri of HTTPError \<Rightarrow> None | Resp r \<Rightarrow> Some (json_data r))"

definition pd_snapshot :: "env \<Rightarrow> string \<Rightarrow> drive_json option" where
  "pd_snapshot e drive_id = drive_snapshot e (PD_URI (split_last CHR '':'' drive_id) drive_id)"

definition volume_snapshot :: "env \<Rightarrow> string \<Rightarrow> volume_json option" where
  "volume_snapshot e vol =
     (case get_volume e (VOLUME_URI SYSTEM_ID (split_last CHR '':'' vol) @ ''/'' @ vol) of
        HTTPError \<Rightarrow> None
      | Resp r \<Rightarrow> Some (json_data r))"

text \<open>
  The links of the member drives of a volume: none when the body has no \<open>Links\<close>;
  \<open>None\<close> when \<open>Links\<close> is there without \<open>Drives\<close>, which the module cannot iterate.
\<close>

definition member_drives :: "volume_json \<Rightarrow> string list option" where
  "member_drives vj = (case Links vj of None \<Rightarrow> Some [] | Some links \<Rightarrow> Drives links)"

definition encryption_ability_of :: "env \<Rightarrow> string \<Rightarrow> string option" where
  "encryption_ability_of e uri =
     (case drive_snapshot e uri of None \<Rightarrow> None | Some j \<Rightarrow> EncryptionAbility j)"

text \<open>
  \<open>drives_to_add\<close> of the capacity expansion by target: the requested targets that are
  not among the current member drives, in the order of the request.
\<close>

definition drives_to_add_of :: "string list \<Rightarrow> string list \<Rightarrow> string list" where
  "drives_to_add_of tg ds =
     filter (\<lambda>each_drive. each_drive \<notin> set (map (split_last CHR ''/'') ds)) tg"

text \<open>
  The column "NoOp when" of the predicate table, per command, on a snapshot that could be
  read. Commands without such an entry (ReKey, the blink commands, the expansion by size,
  SecureErase) have no target state.
\<close>

definition at_target_state :: "env \<Rightarrow> params \<Rightarrow> bool" where
  "at_target_state e p =
     (case command p of
        None \<Rightarrow> False
      | Some SetControllerKey \<Rightarrow>
          (case controller_snapshot e (controller_id p) of
             None \<Rightarrow> False | Some c \<Rightarrow> KeyID c \<noteq> None)
      | Some RemoveControllerKey \<Rightarrow>
          (case controller_snapshot e (controller_id p) of
             None \<Rightarrow> False | Some c \<Rightarrow> KeyID c = None)
      | Some EnableControllerEncryption \<Rightarrow>
          (case controller_snapshot e (controller_id p) of
             None \<Rightarrow> False | Some c \<Rightarrow> SecurityStatus c = Some ''SecurityKeyAssigned'')
      | Some AssignSpare \<Rightarrow>
          (case target p of
             Some (d # ds) \<Rightarrow>
               (case pd_snapshot e d of
                  None \<Rightarrow> False
                | Some j \<Rightarrow> HotspareType j \<in> set [Some ''Dedicated'', Some ''Global''])
           | other \<Rightarrow> False)
      | Some UnassignSpare \<Rightarrow>
          (case target p of
             Some (d # ds) \<Rightarrow>
               (case pd_snapshot e d of
                  None \<Rightarrow> False | Some j \<Rightarrow> HotspareType j = Some ''None'')
           | other \<Rightarrow> False)
      | Some ConvertToRAID \<Rightarrow>
          (case target p of
             Some tg \<Rightarrow>
               list_all (\<lambda>d. case pd_snapshot e d of
                                None \<Rightarrow> False | Some j \<Rightarrow> RaidStatus j = Some (Some ''Ready'')) tg
           | None \<Rightarrow> False)
      | Some ConvertToNonRAID \<Rightarrow>
          (case target p of
             Some tg \<Rightarrow>
               list_all (\<lambda>d. case pd_snapshot e d of
                                None \<Rightarrow> False | Some j \<Rightarrow> RaidStatus j = Some (Some ''NonRAID'')) tg
           | None \<Rightarrow> False)
      | Some ChangePDStateToOnline \<Rightarrow>
          (case target p of
             Some (d # ds) \<Rightarrow>
               (case pd_snapshot e d of
                  None \<Rightarrow> False | Some j \<Rightarrow> RaidStatus j = Some (Some ''Online''))
           | other \<Rightarrow> False)
      | Some ChangePDStateToOffline \<Rightarrow>
          (case target p of
             Some (d # ds) \<Rightarrow>
               (case pd_snapshot e d of
                  None \<Rightarrow> False | Some j \<Rightarrow> RaidStatus j = Some (Some ''Offline''))
           | other \<Rightarrow> False)
      | Some LockVirtualDisk \<Rightarrow>
          (case volume_id p of
             Some (vol # vs) \<Rightarrow>
               controller_snapshot e (Some (split_last CHR '':'' vol)) \<noteq> None
               \<and> (case volume_snapshot e vol of
                     None \<Rightarrow> False
                   | Some vj \<Rightarrow>
                       (case member_drives vj of
                          None \<Rightarrow> False
                        | Some ds \<Rightarrow> list_all (\<lambda>d. drive_snapshot e d \<noteq> None) ds)
                       \<and> LockStatus vj = Some ''Locked'')
           | other \<Rightarrow> False)
      | Some ResetConfig \<Rightarrow>
          controller_snapshot e (controller_id p) \<noteq> None
          \<and> (case members_snapshot e (controller_id p) of
                None \<Rightarrow> False
              | Some m \<Rightarrow> m = None \<or> m = Some [])
      | Some OnlineCapacityExpansion \<Rightarrow>
          (case volume_id p of
             Some [vol] \<Rightarrow>
               (case target p of
                  None \<Rightarrow> False
                | Some tg \<Rightarrow>
                    (case volume_snapshot e vol of
                       None \<Rightarrow> False
                     | Some vj \<Rightarrow>
                         (case member_drives vj of
                            None \<Rightarrow> False
                          | Some ds \<Rightarrow>
                              drives_to_add_of tg ds = []
                              \<or> (case OCE_MIN_PD_RAID_MAPPING (RAIDType vj) of
                                    None \<Rightarrow> False
                                  | Some m \<Rightarrow> length (drives_to_add_of tg ds) mod m \<noteq> 0))))
           | other \<Rightarrow> False)
      | Some other \<Rightarrow> False)"

text \<open>
  The guards a command passes before it compares the snapshot with its target: the key
  commands refuse a controller that cannot encrypt, \<open>LockVirtualDisk\<close> refuses a volume
  with a member drive that is not self-encrypting, and the capacity expansion by target
  refuses RAID50, RAID60, RAID1 and an empty list of targets.
\<close>

definition guards_pass :: "env \<Rightarrow> params \<Rightarrow> bool" where
  "guards_pass e p =
     (if command p \<in> set [Some SetControllerKey, Some RemoveControllerKey,
                          Some EnableControllerEncryption, Some ReKey]
      then (case controller_snapshot e (controller_id p) of
              None \<Rightarrow> False
            | Some c \<Rightarrow> SecurityStatus c \<noteq> Some ''EncryptionNotCapable'')
      else if command p = Some LockVirtualDisk
      then (case volume_id p of
              Some (vol # vs) \<Rightarrow>
                (case volume_snapshot e vol of
                   None \<Rightarrow> False
                 | Some vj \<Rightarrow>
                     (case member_drives vj of
                        None \<Rightarrow> False
                      | Some ds \<Rightarrow>
                          list_all (\<lambda>d. encryption_ability_of e d = Some ''SelfEncryptingDrive'')
                            ds))
            | other \<Rightarrow> False)
      else if command p = Some OnlineCapacityExpansion \<and> target p \<noteq> None
      then target p \<noteq> Some []
           \<and> (case volume_id p of
                 Some [vol] \<Rightarrow>
                   (case volume_snapshot e vol of
                      None \<Rightarrow> False
                    | Some vj \<Rightarrow>
                        RAIDType vj \<notin> set [Some ''RAID50'', Some ''RAID60'', Some ''RAID1''])
               | other \<Rightarrow> False)
      else True)"

text \<open>The action POSTs among the requests of a run, and the failed endings.\<close>

definition posts :: "'a res \<Rightarrow> request list" where
  "posts r = filter is_POST (fst r)"

definition patches :: "'a res \<Rightarrow> request list" where
  "patches r = filter is_PATCH (fst r)"

definition no_changes :: "exit + 'a" where
  "no_changes = Inl (Exit_json (exit0\<lparr>msg := Some NO_CHANGES_FOUND\<rparr>))"

definition changes_found :: "exit + 'a" where
  "changes_found = Inl (Exit_json (exit0\<lparr>msg := Some CHANGES_FOUND, changed := True\<rparr>))"

fun is_failure :: "exit + 'a \<Rightarrow> bool" where
  "is_failure (Inl (Fail_json m)) = True"
| "is_failure (Inl (Exit_json out)) = failed out"
| "is_failure other = False"

section \<open>A sample system and sample parameters\<close>

text \<open>
  A remote system on which the statements below are tried: a controller with a key
  assigned and no volume listed, drives that are ready and no hot spare, a locked RAID10
  volume of 362000 MB with one member drive that is not self-encrypting, and writes that
  are answered with a job.
\<close>

definition ok :: "'a \<Rightarrow> 'a http" where
  "ok j = Resp \<lparr>success = True, status_code = 200, Location = None, json_data = j\<rparr>"

definition accepted :: "'a \<Rightarrow> 'a http" where
  "accepted j =
     Resp \<lparr>success = True, status_code = 202,
           Location = Some ''/redfish/v1/TaskService/Tasks/JID_1'', json_data = j\<rparr>"

definition sample_drive :: drive_json where
  "sample_drive =
     \<lparr>HotspareType = Some ''None'', RaidStatus = Some (Some ''Ready''),
      EncryptionAbility = Some ''None''\<rparr>"

definition sample_volume :: volume_json where
  "sample_volume =
     \<lparr>Links = Some \<lparr>Drives = Some [''/redfish/v1/Systems/System.Embedded.1/Storage/Drives/D0'']\<rparr>,
      LockStatus = Some ''Locked'', RAIDType = Some ''RAID10'',
      CapacityBytes = Some 379584512000\<rparr>"

definition sample_env :: env where
  "sample_env =
     \<lparr>get_controller =
        (\<lambda>u. ok \<lparr>SecurityStatus = Some ''SecurityKeyAssigned'', KeyID = Some ''k1''\<rparr>),
      get_volumes = (\<lambda>u. ok \<lparr>Members = Some []\<rparr>),
      get_drive = (\<lambda>u. ok sample_drive),
      get_volume = (\<lambda>u. ok sample_volume),
      get_manager =
        (\<lambda>u. ok \<lparr>DateTime = Some ''2022-09-30T04:15:40-05:00'',
                  DateTimeLocalOffset = Some ''-05:00''\<rparr>),
      get_controllers =
        (\<lambda>u. ok \<lparr>DellStorageController =
                    Some [(''ControllerMode'', PStr ''RAID''), (''CopybackMode'', PStr ''On'')],
                  SupportedApplyTimes =
                    [''Immediate'', ''OnReset'', ''AtMaintenanceWindowStart'',
                     ''InMaintenanceWindowOnReset'']\<rparr>),
      post = (\<lambda>u d. accepted ()),
      patch = (\<lambda>u d. accepted None),
      job_data =
        (\<lambda>u w t. \<lparr>JobState = Some ''Completed'', PercentComplete = Some 100,
                   Message = Some ''Job completed successfully.''\<rparr>),
      first_resource_id_uri = (''/redfish/v1/Systems/System.Embedded.1'', None),
      dynamic_uri_id = (\<lambda>u k. ''/redfish/v1/Systems/System.Embedded.1/Storage''),
      dynamic_uri_members = (\<lambda>u k. []),
      drive_detail = (\<lambda>u. \<lparr>DellPhysicalDisk = None, DellPCIeSSD = None\<rparr>),
      firmware_at_least_3_0 = True,
      scheduled_job = (\<lambda>t. False),
      secure_erase_target = (\<lambda>u. None)\<rparr>"

definition sample_params :: params where
  "sample_params =
     \<lparr>attributes = None, command = None, controller_id = Some ''RAID.Slot.1-1'',
      volume_id = None, target = None, key = None, key_id = None, old_key = None,
      mode = LKM, apply_time = ''Immediate'', maintenance_window = None,
      job_wait = False, job_wait_timeout = 120, size_mb = None, check_mode = False\<rparr>"

section \<open>Attribute requests and blink targets\<close>

text \<open>
  What the loop of \<open>check_attr_exists\<close> collects: the requested names that the current
  attribute map does not have, and the requested pairs whose value differs from the
  current one, both in the order of the request.
\<close>

definition invalid_of :: "(string \<times> pyval) list \<Rightarrow> (string \<times> pyval) list \<Rightarrow> string list" where
  "invalid_of ca inp_attr = filter (\<lambda>k. map_of ca k = None) (map fst inp_attr)"

definition pending_of ::
  "(string \<times> pyval) list \<Rightarrow> (string \<times> pyval) list \<Rightarrow> (string \<times> pyval) list" where
  "pending_of ca inp_attr =
     filter (\<lambda>(k, v). case map_of ca k of None \<Rightarrow> False | Some c \<Rightarrow> \<not> py_eq c v) inp_attr"

text \<open>The condition of the first test of \<open>set_attributes\<close>.\<close>

definition hba_conflict :: "(string \<times> pyval) list \<Rightarrow> bool" where
  "hba_conflict inp_attr =
     ((case map_of inp_attr ''ControllerMode'' of None \<Rightarrow> False | Some v \<Rightarrow> truthy v)
      \<and> length inp_attr > 1)"






text \<open>Variations of the sample system.\<close>

definition chassis_env :: env where
  "chassis_env =
     sample_env\<lparr>get_drive := (\<lambda>u. ok (sample_drive\<lparr>HotspareType := Some ''Chassis''\<rparr>))\<rparr>"


definition raid50_env :: env where
  "raid50_env =
     sample_env\<lparr>get_volume := (\<lambda>u. ok (sample_volume\<lparr>RAIDType := Some ''RAID50''\<rparr>))\<rparr>"

definition busy_env :: env where
  "busy_env =
     sample_env\<lparr>get_volumes :=
       (\<lambda>u. ok \<lparr>Members = Some [''/redfish/v1/Systems/System.Embedded.1/Storage/Volumes/V0'']\<rparr>)\<rparr>"

definition failed_job_env :: env where
  "failed_job_env =
     busy_env\<lparr>job_data :=
       (\<lambda>u w t. \<lparr>JobState = Some ''Failed'', PercentComplete = Some 100,
                  Message = Some ''Job failed.''\<rparr>)\<rparr>"

section \<open>Facts about the plumbing\<close>

lemma and_then_Inl [simp]: "and_then (t, Inl x) f = (t, Inl x)"
  by (simp add: and_then_def)

lemma and_then_Inr [simp]: "and_then (t, Inr v) f = (t @ fst (f v), snd (f v))"
  by (simp add: and_then_def split: prod.splits)

lemma and_then_ret [simp]: "and_then (ret v) f = f v"
  by (simp add: ret_def)

lemma and_then_stop [simp]: "and_then (stop x) f = stop x"
  by (simp add: stop_def)

lemma fst_stop [simp]: "fst (stop x) = []" and snd_stop [simp]: "snd (stop x) = Inl x"
  by (simp_all add: stop_def)

lemma fst_ret [simp]: "fst (ret x) = []" and snd_ret [simp]: "snd (ret x) = Inr x"
  by (simp_all add: ret_def)

lemmas exits = exit_json_def fail_json_def exit_msg_def exit_changed_def exit_failed_def

lemma check_id_exists_ok:
  "controller_snapshot e cid = Some c \<Longrightarrow>
   check_id_exists e k cid CONTROLLER_URI = ([GET (CONTROLLER_URI SYSTEM_ID (fmt cid))], Inr ())"
  by (auto simp: controller_snapshot_def check_id_exists_def invoke_get_def except_HTTPError_def
      ret_def split: http.splits if_splits)

lemma get_controller_ok:
  "controller_snapshot e cid = Some c \<Longrightarrow>
   \<exists>r. get_controller e (CONTROLLER_URI SYSTEM_ID (fmt cid)) = Resp r \<and> json_data r = c"
  by (auto simp: controller_snapshot_def split: http.splits if_splits)


lemma ctrl_key_resolved:
  assumes "controller_snapshot e (controller_id p) = Some c"
  shows "ctrl_key e p =
     (if SecurityStatus c = Some ''EncryptionNotCapable''
      then ([GET (CONTROLLER_URI SYSTEM_ID (fmt (controller_id p))),
             GET (CONTROLLER_URI SYSTEM_ID (fmt (controller_id p)))],
            Inl (Fail_json (ENCRYPT_ERR_MSG (fmt (controller_id p)))))
      else and_then ([GET (CONTROLLER_URI SYSTEM_ID (fmt (controller_id p))),
                      GET (CONTROLLER_URI SYSTEM_ID (fmt (controller_id p)))], Inr ()) (\<lambda>u.
           and_then (ctrl_key_payload p (SecurityStatus c) (KeyID c)) (\<lambda>payload.
           and_then (invoke_post e (RAID_ACTION_URI SYSTEM_ID (fmt_command (command p)))
                       (Some (JObj payload))) job_of)))"
proof -
  obtain r where r: "get_controller e (CONTROLLER_URI SYSTEM_ID (fmt (controller_id p))) = Resp r"
    "json_data r = c"
    using get_controller_ok [OF assms] by blast
  show ?thesis
    unfolding ctrl_key_def check_id_exists_ok [OF assms]
    by (simp add: invoke_get_def r exits stop_def)
qed

lemma payload_set_key:
  "command p = Some SetControllerKey \<Longrightarrow> k \<noteq> None \<Longrightarrow>
   ctrl_key_payload p s k = exit_msg NO_CHANGES_FOUND"
  by (cases k) (simp_all add: ctrl_key_payload_def)

lemma payload_remove_key:
  "command p = Some RemoveControllerKey \<Longrightarrow>
   ctrl_key_payload p s None = exit_msg NO_CHANGES_FOUND"
  by (simp add: ctrl_key_payload_def)

lemma payload_enable:
  "command p = Some EnableControllerEncryption \<Longrightarrow>
   ctrl_key_payload p (Some ''SecurityKeyAssigned'') k = exit_msg NO_CHANGES_FOUND"
  by (simp add: ctrl_key_payload_def)

lemma c1_ctrl_key:
  assumes "command p \<in> set [Some SetControllerKey, Some RemoveControllerKey, Some EnableControllerEncryption]"
    and "at_target_state e p"
  shows "posts (ctrl_key e p) = [] \<and>
         (guards_pass e p \<longrightarrow> snd (ctrl_key e p) = no_changes) \<and>
         (\<not> guards_pass e p \<longrightarrow> is_failure (snd (ctrl_key e p)))"
proof -
  from assms obtain c where c: "controller_snapshot e (controller_id p) = Some c"
    by (auto simp: at_target_state_def split: option.splits)
  have g: "guards_pass e p = (SecurityStatus c \<noteq> Some ''EncryptionNotCapable'')"
    using assms(1) c by (auto simp: guards_pass_def)
  have pl: "ctrl_key_payload p (SecurityStatus c) (KeyID c) = exit_msg NO_CHANGES_FOUND"
    using assms c
    by (auto simp: at_target_state_def payload_set_key payload_remove_key payload_enable)
  show ?thesis
    unfolding ctrl_key_resolved [OF c] g pl
    by (simp add: posts_def no_changes_def exits stop_def)
qed


lemma get_drive_ok:
  "drive_snapshot e u = Some j \<Longrightarrow> \<exists>r. get_drive e u = Resp r \<and> json_data r = j"
  by (auto simp: drive_snapshot_def split: http.splits)

lemma pd_get_ok:
  assumes "pd_snapshot e d = Some j"
  shows "\<exists>r. json_data r = j \<and>
           invoke_get (get_drive e) (PD_URI (split_last CHR '':'' d) d)
             = ([GET (PD_URI (split_last CHR '':'' d) d)], Inr r)"
proof -
  obtain r where r: "get_drive e (PD_URI (split_last CHR '':'' d) d) = Resp r" "json_data r = j"
    using get_drive_ok assms unfolding pd_snapshot_def by blast
  then show ?thesis
    by (simp add: invoke_get_def)
qed

lemma except_HTTPError_Inr [simp]: "except_HTTPError (t, Inr v) h = (t, Inr v)"
  by (simp add: except_HTTPError_def)

lemma except_HTTPError_Exit [simp]:
  "except_HTTPError (t, Inl (Exit_json out)) h = (t, Inl (Exit_json out))"
  "except_HTTPError (t, Inl (Fail_json m)) h = (t, Inl (Fail_json m))"
  by (simp_all add: except_HTTPError_def)

lemma hot_spare_resolved:
  assumes "target p = Some (d # ds)" and "pd_snapshot e d = Some j"
  shows "hot_spare_config e p =
     (if (check_mode p \<and> HotspareType j = Some ''None'' \<and> command p = Some AssignSpare)
         \<or> (check_mode p \<and> HotspareType j \<noteq> Some ''None'' \<and> command p = Some UnassignSpare)
      then ([GET (PD_URI (split_last CHR '':'' d) d)], changes_found)
      else if (HotspareType j \<in> set [Some ''Dedicated'', Some ''Global'']
                \<and> command p = Some AssignSpare)
            \<or> (HotspareType j = Some ''None'' \<and> command p = Some UnassignSpare)
      then ([GET (PD_URI (split_last CHR '':'' d) d)], no_changes)
      else and_then ([GET (PD_URI (split_last CHR '':'' d) d)], Inr ()) (\<lambda>u.
           and_then (invoke_post e (RAID_ACTION_URI SYSTEM_ID (fmt_command (command p)))
                       (Some (JObj ([(''TargetFQDD'', JOpt (Some d))]
                          @ (if volume_id p \<noteq> None \<and> command p = Some AssignSpare
                             then [(''VirtualDiskArray'', JOptStrs (volume_id p))]
                             else []))))) job_of))"
proof -
  obtain r where r: "json_data r = j"
    "invoke_get (get_drive e) (PD_URI (split_last CHR '':'' d) d)
       = ([GET (PD_URI (split_last CHR '':'' d) d)], Inr r)"
    using pd_get_ok [OF assms(2)] by blast
  show ?thesis
    unfolding hot_spare_config_def assms(1) first_of.simps and_then_ret r(2)
    by (auto simp: r(1) exits stop_def changes_found_def no_changes_def Let_def)
qed

lemma change_pd_resolved:
  assumes "target p = Some (d # ds)" and "pd_snapshot e d = Some j" and "RaidStatus j = Some rs"
  shows "change_pd_status e p =
     (let state = (if command p = Some ChangePDStateToOnline then ''Online'' else ''Offline'')
      in if check_mode p \<and> Some state \<noteq> rs
         then ([GET (PD_URI (split_last CHR '':'' d) d)], changes_found)
         else if Some state = rs
         then ([GET (PD_URI (split_last CHR '':'' d) d)], no_changes)
         else and_then ([GET (PD_URI (split_last CHR '':'' d) d)], Inr ()) (\<lambda>u.
              and_then (invoke_post e (RAID_ACTION_URI SYSTEM_ID ''ChangePDState'')
                          (Some (JObj [(''TargetFQDD'', JOpt (Some d)),
                                       (''State'', JVal (PStr state))]))) job_of))"
proof -
  obtain r where r: "json_data r = j"
    "invoke_get (get_drive e) (PD_URI (split_last CHR '':'' d) d)
       = ([GET (PD_URI (split_last CHR '':'' d) d)], Inr r)"
    using pd_get_ok [OF assms(2)] by blast
  show ?thesis
    unfolding change_pd_status_def assms(1) first_of.simps and_then_ret r(2)
    by (auto simp: r(1) assms(3) exits stop_def changes_found_def no_changes_def Let_def ret_def)
qed

lemma pd_ready_states_resolved:
  "list_all (\<lambda>d. case pd_snapshot e d of None \<Rightarrow> False | Some j \<Rightarrow> RaidStatus j \<noteq> None) tg \<Longrightarrow>
   pd_ready_states e tg =
     (map (\<lambda>d. GET (PD_URI (split_last CHR '':'' d) d)) tg,
      Inr (map (\<lambda>d. the (RaidStatus (the (pd_snapshot e d)))) tg))"
proof (induction tg)
  case Nil
  then show ?case by (simp add: ret_def)
next
  case (Cons d tg)
  then obtain j rs where j: "pd_snapshot e d = Some j" "RaidStatus j = Some rs"
    by (auto split: option.splits)
  obtain r where r: "json_data r = j"
    "invoke_get (get_drive e) (PD_URI (split_last CHR '':'' d) d)
       = ([GET (PD_URI (split_last CHR '':'' d) d)], Inr r)"
    using pd_get_ok [OF j(1)] by blast
  from Cons have IH: "pd_ready_states e tg =
     (map (\<lambda>d. GET (PD_URI (split_last CHR '':'' d) d)) tg,
      Inr (map (\<lambda>d. the (RaidStatus (the (pd_snapshot e d)))) tg))"
    by simp
  show ?case
    unfolding pd_ready_states.simps r(2) IH
    by (simp add: r(1) j ret_def)
qed

lemma count_list_same: "\<forall>x\<in>set xs. x = a \<Longrightarrow> count_list xs a = length xs"
  by (induction xs) auto

lemma count_list_other: "\<forall>x\<in>set xs. x = a \<Longrightarrow> a \<noteq> b \<Longrightarrow> count_list xs b = 0"
  by (induction xs) auto

lemma convert_raid_at_target:
  assumes "target p = Some tg"
    and "list_all (\<lambda>d. case pd_snapshot e d of None \<Rightarrow> False
                              | Some j \<Rightarrow> RaidStatus j = Some (Some s)) tg"
    and "(command p = Some ConvertToRAID \<and> s = ''Ready'')
         \<or> (command p = Some ConvertToNonRAID \<and> s = ''NonRAID'')"
  shows "convert_raid_status e p =
           (map (\<lambda>d. GET (PD_URI (split_last CHR '':'' d) d)) tg, no_changes)"
proof -
  have a: "list_all (\<lambda>d. case pd_snapshot e d of None \<Rightarrow> False | Some j \<Rightarrow> RaidStatus j \<noteq> None) tg"
    using assms(2) by (auto simp: list_all_iff split: option.splits)
  have b: "\<forall>x\<in>set (map (\<lambda>d. the (RaidStatus (the (pd_snapshot e d)))) tg). x = Some s"
    using assms(2) by (auto simp: list_all_iff split: option.splits)
  have c: "count_list (map (\<lambda>d. the (RaidStatus (the (pd_snapshot e d)))) tg) (Some s) = length tg"
    using count_list_same [OF b] by simp
  let ?xs = "map (\<lambda>d. the (RaidStatus (the (pd_snapshot e d)))) tg"
  from assms(3) show ?thesis
  proof
    assume h: "command p = Some ConvertToRAID \<and> s = ''Ready''"
    have c1: "count_list ?xs (Some ''Ready'') = length tg" using c h by simp
    have c2: "count_list ?xs (Some ''NonRAID'') = 0"
      using count_list_other [OF b, of "Some ''NonRAID''"] h by simp
    show ?thesis
      unfolding convert_raid_status_def assms(1) option.case pd_ready_states_resolved [OF a]
        and_then_Inr
      by (simp add: h c1 c2 exits stop_def no_changes_def)
  next
    assume h: "command p = Some ConvertToNonRAID \<and> s = ''NonRAID''"
    have c1: "count_list ?xs (Some ''NonRAID'') = length tg" using c h by simp
    have c2: "count_list ?xs (Some ''Ready'') = 0"
      using count_list_other [OF b, of "Some ''Ready''"] h by simp
    show ?thesis
      unfolding convert_raid_status_def assms(1) option.case pd_ready_states_resolved [OF a]
        and_then_Inr
      by (simp add: h c1 c2 exits stop_def no_changes_def)
  qed
qed

lemma reset_config_resolved:
  assumes "controller_snapshot e (controller_id p) = Some c"
    and "members_snapshot e (controller_id p) = Some m"
  shows "ctrl_reset_config e p =
     (if check_mode p \<and> m \<noteq> None \<and> m \<noteq> Some []
      then ([GET (CONTROLLER_URI SYSTEM_ID (fmt (controller_id p))),
             GET (VOLUME_URI SYSTEM_ID (fmt (controller_id p)))], changes_found)
      else if m = None \<or> m = Some []
      then ([GET (CONTROLLER_URI SYSTEM_ID (fmt (controller_id p))),
             GET (VOLUME_URI SYSTEM_ID (fmt (controller_id p)))], no_changes)
      else and_then ([GET (CONTROLLER_URI SYSTEM_ID (fmt (controller_id p))),
                      GET (VOLUME_URI SYSTEM_ID (fmt (controller_id p)))], Inr ()) (\<lambda>u.
           and_then (invoke_post e (RAID_ACTION_URI SYSTEM_ID (fmt_command (command p)))
                       (Some (JObj [(''TargetFQDD'', JOpt (controller_id p))]))) job_of))"
proof -
  obtain r where r: "get_volumes e (VOLUME_URI SYSTEM_ID (fmt (controller_id p))) = Resp r"
    "Members (json_data r) = m"
    using assms(2) by (auto simp: members_snapshot_def split: http.splits)
  show ?thesis
    unfolding ctrl_reset_config_def check_id_exists_ok [OF assms(1)]
    by (auto simp: invoke_get_def r exits stop_def changes_found_def no_changes_def Let_def)
qed

lemma posts_encryption_ability_check:
  "filter is_POST (fst (encryption_ability_check e ds)) = []"
  by (induction ds) (auto simp: ret_def stop_def fail_json_def invoke_get_def split: http.splits)

lemma encryption_ability_check_passes:
  "list_all (\<lambda>d. encryption_ability_of e d = Some ''SelfEncryptingDrive'') ds \<Longrightarrow>
   encryption_ability_check e ds = (map GET ds, Inr ())"
proof (induction ds)
  case Nil
  then show ?case by (simp add: ret_def)
next
  case (Cons d ds)
  then obtain r where r: "get_drive e d = Resp r"
    "EncryptionAbility (json_data r) = Some ''SelfEncryptingDrive''"
    by (auto simp: encryption_ability_of_def drive_snapshot_def split: http.splits option.splits)
  from Cons have IH: "encryption_ability_check e ds = (map GET ds, Inr ())" by simp
  show ?case
    unfolding encryption_ability_check.simps
    by (simp add: invoke_get_def r IH)
qed

lemma encryption_ability_check_fails:
  "list_all (\<lambda>d. drive_snapshot e d \<noteq> None) ds \<Longrightarrow>
   \<not> list_all (\<lambda>d. encryption_ability_of e d = Some ''SelfEncryptingDrive'') ds \<Longrightarrow>
   snd (encryption_ability_check e ds) = Inl (Fail_json PHYSICAL_DISK_ERR)"
proof (induction ds)
  case Nil
  then show ?case by simp
next
  case (Cons d ds)
  then obtain r where r: "get_drive e d = Resp r"
    by (auto simp: drive_snapshot_def split: http.splits)
  show ?case
  proof (cases "EncryptionAbility (json_data r) = Some ''SelfEncryptingDrive''")
    case True
    then have "encryption_ability_of e d = Some ''SelfEncryptingDrive''"
      by (simp add: encryption_ability_of_def drive_snapshot_def r)
    with Cons have "snd (encryption_ability_check e ds) = Inl (Fail_json PHYSICAL_DISK_ERR)"
      by simp
    then show ?thesis
      unfolding encryption_ability_check.simps
      by (simp add: invoke_get_def r True)
  next
    case False
    then show ?thesis
      unfolding encryption_ability_check.simps
      by (simp add: invoke_get_def r fail_json_def)
  qed
qed

lemma volume_get_ok:
  assumes "volume_snapshot e vol = Some vj"
  shows "\<exists>r. json_data r = vj \<and>
           invoke_get (get_volume e) (VOLUME_URI SYSTEM_ID (split_last CHR '':'' vol) @ ''/'' @ vol)
             = ([GET (VOLUME_URI SYSTEM_ID (split_last CHR '':'' vol) @ ''/'' @ vol)], Inr r)"
  using assms by (auto simp: volume_snapshot_def invoke_get_def split: http.splits)

lemma lock_virtual_disk_resolved:
  assumes "volume_id p = Some (vol # vs)"
    and "controller_snapshot e (Some (split_last CHR '':'' vol)) = Some c"
    and "volume_snapshot e vol = Some vj"
    and "member_drives vj = Some ds"
  shows "lock_virtual_disk e p =
     and_then ([GET (CONTROLLER_URI SYSTEM_ID (split_last CHR '':'' vol)),
                GET (VOLUME_URI SYSTEM_ID (split_last CHR '':'' vol) @ ''/'' @ vol)], Inr ()) (\<lambda>u.
     and_then (except_HTTPError (encryption_ability_check e ds)
                 (fail_json (PD_ERROR_MSG (split_last CHR '':'' vol)))) (\<lambda>u.
       if LockStatus vj = Some ''Unlocked'' \<and> check_mode p
       then ([], changes_found)
       else if LockStatus vj = Some ''Locked'' then ([], no_changes)
       else and_then (invoke_post e (RAID_ACTION_URI SYSTEM_ID ''LockVirtualDisk'')
                        (Some (JObj [(''TargetFQDD'', JOpt (Some vol))]))) job_of))"
proof -
  obtain r where r: "json_data r = vj"
    "invoke_get (get_volume e) (VOLUME_URI SYSTEM_ID (split_last CHR '':'' vol) @ ''/'' @ vol)
       = ([GET (VOLUME_URI SYSTEM_ID (split_last CHR '':'' vol) @ ''/'' @ vol)], Inr r)"
    using volume_get_ok [OF assms(3)] by blast
  have chk: "check_id_exists e ''controller_id'' (Some (split_last CHR '':'' vol)) CONTROLLER_URI
      = ([GET (CONTROLLER_URI SYSTEM_ID (split_last CHR '':'' vol))], Inr ())"
    using check_id_exists_ok [OF assms(2)] by simp
  have links: "(case Links vj of None \<Rightarrow> ret ()
                | Some links \<Rightarrow> (case Drives links of None \<Rightarrow> stop (Raise TypeError)
                                 | Some ds \<Rightarrow> encryption_ability_check e ds))
               = encryption_ability_check e ds"
    using assms(4) by (auto simp: member_drives_def split: option.splits)
  obtain t x where tx: "encryption_ability_check e ds = (t, x)"
    by (cases "encryption_ability_check e ds")
  show ?thesis
    unfolding lock_virtual_disk_def assms(1) first_of.simps and_then_ret chk r(2) and_then_Inr
    apply (simp add: r(1) links tx)
    apply (cases x)
     apply (auto simp: except_HTTPError_def exits stop_def ret_def changes_found_def no_changes_def
        split: exit.splits py_exception.splits)
    done
qed

lemma fst_post_job [simp]: "fst (and_then (invoke_post e u d) job_of) = [POST u d]"
  by (auto simp: invoke_post_def job_of_def and_then_def ret_def stop_def
      split: http.splits option.splits)

lemma fst_invoke_post [simp]: "fst (invoke_post e u d) = [POST u d]"
  by (simp add: invoke_post_def)

lemma fst_except_exit [simp]:
  "fst (except_HTTPError m (exit_failed x)) = fst m"
  "fst (except_HTTPError m (fail_json y)) = fst m"
  "fst (except_HTTPError m (exit_json z)) = fst m"
  by (auto simp: except_HTTPError_def exit_failed_def exit_json_def fail_json_def stop_def
      split: prod.splits sum.splits exit.splits py_exception.splits)

lemma except_HTTPError_other [simp]:
  "x \<noteq> HTTPError_exc \<Longrightarrow> except_HTTPError (t, Inl (Raise x)) h = (t, Inl (Raise x))"
  by (cases x) (simp_all add: except_HTTPError_def)

lemma except_HTTPError_stop [simp]:
  "except_HTTPError (stop (Exit_json out)) h = stop (Exit_json out)"
  "except_HTTPError (stop (Fail_json m)) h = stop (Fail_json m)"
  "except_HTTPError (stop (Raise KeyError)) h = stop (Raise KeyError)"
  by (simp_all add: except_HTTPError_def stop_def)

lemma oce_target_resolved:
  assumes "volume_id p = Some [vol]" and "target p = Some tg"
    and "volume_snapshot e vol = Some vj" and "member_drives vj = Some ds"
  shows "online_capacity_expansion e p =
     (if RAIDType vj \<in> set [Some ''RAID50'', Some ''RAID60'']
      then ([GET (VOLUME_URI SYSTEM_ID (split_last CHR '':'' vol) @ ''/'' @ vol)],
            Inl (Exit_json (exit0\<lparr>msg := Some (OCE_RAID_TYPE_ERR (fmt (RAIDType vj))),
                                  failed := True\<rparr>)))
      else if tg = []
      then ([GET (VOLUME_URI SYSTEM_ID (split_last CHR '':'' vol) @ ''/'' @ vol)],
            Inl (Exit_json (exit0\<lparr>msg := Some OCE_TARGET_EMPTY, failed := True\<rparr>)))
      else if RAIDType vj = Some ''RAID1''
      then ([GET (VOLUME_URI SYSTEM_ID (split_last CHR '':'' vol) @ ''/'' @ vol)],
            Inl (Fail_json OCE_TARGET_RAID1_ERR))
      else if drives_to_add_of tg ds = []
      then ([GET (VOLUME_URI SYSTEM_ID (split_last CHR '':'' vol) @ ''/'' @ vol)], no_changes)
      else
        (case OCE_MIN_PD_RAID_MAPPING (RAIDType vj) of
           None \<Rightarrow> ([GET (VOLUME_URI SYSTEM_ID (split_last CHR '':'' vol) @ ''/'' @ vol)],
                    Inl (Raise KeyError))
         | Some m \<Rightarrow>
             if length (drives_to_add_of tg ds) mod m \<noteq> 0
             then ([GET (VOLUME_URI SYSTEM_ID (split_last CHR '':'' vol) @ ''/'' @ vol)],
                   no_changes)
             else if check_mode p
             then ([GET (VOLUME_URI SYSTEM_ID (split_last CHR '':'' vol) @ ''/'' @ vol)],
                   changes_found)
             else and_then
                    ([GET (VOLUME_URI SYSTEM_ID (split_last CHR '':'' vol) @ ''/'' @ vol)],
                     Inr ()) (\<lambda>u.
                  except_HTTPError
                    (and_then (invoke_post e
                                 (RAID_ACTION_URI SYSTEM_ID ''OnlineCapacityExpansion'')
                                 (Some (JObj [(''TargetFQDD'', JOpt (Some vol)),
                                    (''PDArray'', JStrs (drives_to_add_of tg ds))]))) job_of)
                    (exit_failed REMOTE_MESSAGE))))"
proof -
  obtain r where r: "json_data r = vj"
    "invoke_get (get_volume e) (VOLUME_URI SYSTEM_ID (split_last CHR '':'' vol) @ ''/'' @ vol)
       = ([GET (VOLUME_URI SYSTEM_ID (split_last CHR '':'' vol) @ ''/'' @ vol)], Inr r)"
    using volume_get_ok [OF assms(3)] by blast
  have links: "(case Links vj of None \<Rightarrow> ret []
                | Some links \<Rightarrow> (case Drives links of None \<Rightarrow> stop (Raise TypeError)
                                 | Some ds \<Rightarrow> ret (map (split_last CHR ''/'') ds)))
               = ret (map (split_last CHR ''/'') ds)"
    using assms(4) by (auto simp: member_drives_def split: option.splits)
  have pl: "oce_payload p vol vj =
     (if tg = [] then exit_failed OCE_TARGET_EMPTY
      else if RAIDType vj = Some ''RAID1'' then fail_json OCE_TARGET_RAID1_ERR
      else if drives_to_add_of tg ds = [] then exit_msg NO_CHANGES_FOUND
      else (case OCE_MIN_PD_RAID_MAPPING (RAIDType vj) of
              None \<Rightarrow> stop (Raise KeyError)
            | Some m \<Rightarrow>
                if length (drives_to_add_of tg ds) mod m \<noteq> 0 then exit_msg NO_CHANGES_FOUND
                else if check_mode p then exit_changed CHANGES_FOUND
                else ret (Some (JObj [(''TargetFQDD'', JOpt (Some vol)),
                                      (''PDArray'', JStrs (drives_to_add_of tg ds))]))))"
    unfolding oce_payload_def assms(2) option.case links and_then_ret
    by (auto simp: drives_to_add_of_def oce_divisible_def Let_def exits stop_def ret_def
        split: option.splits)
  show ?thesis
    unfolding online_capacity_expansion_def assms(1) option.case list.case r(2)
      except_HTTPError_Inr and_then_Inr
    by (auto simp: r(1) pl exits stop_def no_changes_def changes_found_def
        split: option.splits)
qed

lemma oce_size_resolved:
  assumes "volume_id p = Some [vol]" and "target p = None" and "size_mb p = Some sz"
    and "sz \<noteq> 0" and "volume_snapshot e vol = Some vj" and "CapacityBytes vj = Some cb"
  shows "online_capacity_expansion e p =
     (if RAIDType vj \<in> set [Some ''RAID50'', Some ''RAID60'']
      then ([GET (VOLUME_URI SYSTEM_ID (split_last CHR '':'' vol) @ ''/'' @ vol)],
            Inl (Exit_json (exit0\<lparr>msg := Some (OCE_RAID_TYPE_ERR (fmt (RAIDType vj))),
                                  failed := True\<rparr>)))
      else if sz - cb div (1024 * 1024) < 100
      then ([GET (VOLUME_URI SYSTEM_ID (split_last CHR '':'' vol) @ ''/'' @ vol)],
            Inl (Exit_json (exit0\<lparr>msg := Some (OCE_SIZE_100MB (cb div (1024 * 1024))),
                                  failed := True\<rparr>)))
      else and_then
             ([GET (VOLUME_URI SYSTEM_ID (split_last CHR '':'' vol) @ ''/'' @ vol)],
              Inr ()) (\<lambda>u.
           except_HTTPError
             (and_then (invoke_post e
                          (RAID_ACTION_URI SYSTEM_ID ''OnlineCapacityExpansion'')
                          (Some (JObj [(''TargetFQDD'', JOpt (Some vol)),
                                       (''Size'', JVal (PInt sz))]))) job_of)
             (exit_failed REMOTE_MESSAGE)))"
proof -
  obtain r where r: "json_data r = vj"
    "invoke_get (get_volume e) (VOLUME_URI SYSTEM_ID (split_last CHR '':'' vol) @ ''/'' @ vol)
       = ([GET (VOLUME_URI SYSTEM_ID (split_last CHR '':'' vol) @ ''/'' @ vol)], Inr r)"
    using volume_get_ok [OF assms(5)] by blast
  have pl: "oce_payload p vol vj =
     (if sz - cb div (1024 * 1024) < 100 then exit_failed (OCE_SIZE_100MB (cb div (1024 * 1024)))
      else ret (Some (JObj [(''TargetFQDD'', JOpt (Some vol)), (''Size'', JVal (PInt sz))])))"
    unfolding oce_payload_def assms(2) assms(3) option.case
    by (simp add: assms(4) assms(6) Let_def)
  show ?thesis
    unfolding online_capacity_expansion_def assms(1) option.case list.case r(2)
      except_HTTPError_Inr and_then_Inr
    by (auto simp: r(1) pl exits stop_def)
qed

lemma posts_simps [simp]:
  "posts (t, x) = filter is_POST t"
  by (simp add: posts_def)

lemma is_failure_no_changes [simp]: "\<not> is_failure no_changes"
  by (simp add: no_changes_def exit0_def)

lemma noop_lift:
  assumes "posts m = [] \<and> (G \<longrightarrow> snd m = no_changes) \<and> (\<not> G \<longrightarrow> is_failure (snd m))"
  shows "posts (and_then m (\<lambda>j. ret (Some j))) = [] \<and>
         (G \<longrightarrow> snd (and_then m (\<lambda>j. ret (Some j))) = no_changes) \<and>
         (\<not> G \<longrightarrow> is_failure (snd (and_then m (\<lambda>j. ret (Some j)))))"
proof -
  obtain t x where m: "m = (t, x)" by (cases m)
  show ?thesis
  proof (cases x)
    case (Inl a)
    with assms m show ?thesis by (cases a) (simp_all add: no_changes_def)
  next
    case (Inr b)
    with assms m show ?thesis by (cases G) (simp_all add: no_changes_def)
  qed
qed

lemma c1_hot_spare:
  assumes "command p \<in> set [Some AssignSpare, Some UnassignSpare]" and "at_target_state e p"
  shows "posts (hot_spare_config e p) = [] \<and> snd (hot_spare_config e p) = no_changes"
proof -
  from assms obtain d ds j where t: "target p = Some (d # ds)" "pd_snapshot e d = Some j"
    by (auto simp: at_target_state_def split: option.splits list.splits)
  from assms t have h: "(HotspareType j \<in> set [Some ''Dedicated'', Some ''Global'']
                \<and> command p = Some AssignSpare)
            \<or> (HotspareType j = Some ''None'' \<and> command p = Some UnassignSpare)"
    by (auto simp: at_target_state_def)
  then have n: "\<not> ((check_mode p \<and> HotspareType j = Some ''None'' \<and> command p = Some AssignSpare)
         \<or> (check_mode p \<and> HotspareType j \<noteq> Some ''None'' \<and> command p = Some UnassignSpare))"
    by auto
  show ?thesis
    unfolding hot_spare_resolved [OF t] if_not_P [OF n] if_P [OF h]
    by simp
qed

lemma c1_change_pd:
  assumes "command p \<in> set [Some ChangePDStateToOnline, Some ChangePDStateToOffline]"
    and "at_target_state e p"
  shows "posts (change_pd_status e p) = [] \<and> snd (change_pd_status e p) = no_changes"
proof -
  from assms obtain d ds j where t: "target p = Some (d # ds)" "pd_snapshot e d = Some j"
    by (auto simp: at_target_state_def split: option.splits list.splits)
  from assms t have h: "RaidStatus j =
      Some (Some (if command p = Some ChangePDStateToOnline then ''Online'' else ''Offline''))"
    by (auto simp: at_target_state_def)
  show ?thesis
    unfolding change_pd_resolved [OF t h]
    by (simp add: Let_def)
qed

lemma c1_convert:
  assumes "command p \<in> set [Some ConvertToRAID, Some ConvertToNonRAID]"
    and "at_target_state e p"
  shows "posts (convert_raid_status e p) = [] \<and> snd (convert_raid_status e p) = no_changes"
proof -
  from assms obtain tg where t: "target p = Some tg"
    by (auto simp: at_target_state_def split: option.splits)
  have np: "filter is_POST (map (\<lambda>d. GET (PD_URI (split_last CHR '':'' d) d)) tg) = []"
    by (induction tg) simp_all
  from assms(1) have "command p = Some ConvertToRAID \<or> command p = Some ConvertToNonRAID"
    by simp
  then show ?thesis
  proof
    assume c: "command p = Some ConvertToRAID"
    with assms(2) t have a: "list_all (\<lambda>d. case pd_snapshot e d of None \<Rightarrow> False
                                   | Some j \<Rightarrow> RaidStatus j = Some (Some ''Ready'')) tg"
      by (simp add: at_target_state_def)
    show ?thesis
      unfolding convert_raid_at_target [OF t a disjI1 [OF conjI [OF c refl]]]
      using np by simp
  next
    assume c: "command p = Some ConvertToNonRAID"
    with assms(2) t have a: "list_all (\<lambda>d. case pd_snapshot e d of None \<Rightarrow> False
                                   | Some j \<Rightarrow> RaidStatus j = Some (Some ''NonRAID'')) tg"
      by (simp add: at_target_state_def)
    show ?thesis
      unfolding convert_raid_at_target [OF t a disjI2 [OF conjI [OF c refl]]]
      using np by simp
  qed
qed

lemma c1_reset:
  assumes "command p = Some ResetConfig" and "at_target_state e p"
  shows "posts (ctrl_reset_config e p) = [] \<and> snd (ctrl_reset_config e p) = no_changes"
proof -
  from assms obtain c m where t: "controller_snapshot e (controller_id p) = Some c"
    "members_snapshot e (controller_id p) = Some m" "m = None \<or> m = Some []"
    by (auto simp: at_target_state_def split: option.splits)
  show ?thesis
    unfolding reset_config_resolved [OF t(1,2)]
    using t(3) by auto
qed

lemma filter_POST_GET [simp]: "filter is_POST (map GET ds) = []"
  by (induction ds) simp_all

lemma c1_lock:
  assumes "command p = Some LockVirtualDisk" and "at_target_state e p"
  shows "posts (lock_virtual_disk e p) = [] \<and>
         (guards_pass e p \<longrightarrow> snd (lock_virtual_disk e p) = no_changes) \<and>
         (\<not> guards_pass e p \<longrightarrow> snd (lock_virtual_disk e p) = Inl (Fail_json PHYSICAL_DISK_ERR))"
proof -
  from assms obtain vol vs c vj ds where t: "volume_id p = Some (vol # vs)"
    "controller_snapshot e (Some (split_last CHR '':'' vol)) = Some c"
    "volume_snapshot e vol = Some vj" "member_drives vj = Some ds"
    and rd: "list_all (\<lambda>d. drive_snapshot e d \<noteq> None) ds"
    and lk: "LockStatus vj = Some ''Locked''"
    by (auto simp: at_target_state_def split: option.splits list.splits)
  have g: "guards_pass e p = list_all (\<lambda>d. encryption_ability_of e d = Some ''SelfEncryptingDrive'') ds"
    using assms(1) t by (simp add: guards_pass_def)
  show ?thesis
  proof (cases "guards_pass e p")
    case True
    then have "encryption_ability_check e ds = (map GET ds, Inr ())"
      using encryption_ability_check_passes g by simp
    then show ?thesis
      unfolding lock_virtual_disk_resolved [OF t]
      using True by (simp add: lk)
  next
    case False
    then have f: "snd (encryption_ability_check e ds) = Inl (Fail_json PHYSICAL_DISK_ERR)"
      using encryption_ability_check_fails [OF rd] g by simp
    obtain tr where tr: "encryption_ability_check e ds = (tr, Inl (Fail_json PHYSICAL_DISK_ERR))"
      using f by (cases "encryption_ability_check e ds") simp
    have "filter is_POST tr = []"
      using posts_encryption_ability_check [of e ds] tr by simp
    then show ?thesis
      unfolding lock_virtual_disk_resolved [OF t] tr
      using False by simp
  qed
qed

lemma c1_oce:
  assumes "command p = Some OnlineCapacityExpansion" and "at_target_state e p"
  shows "posts (online_capacity_expansion e p) = [] \<and>
         (guards_pass e p \<longrightarrow> snd (online_capacity_expansion e p) = no_changes) \<and>
         (\<not> guards_pass e p \<longrightarrow> is_failure (snd (online_capacity_expansion e p)))"
proof -
  from assms obtain vol tg vj ds where t: "volume_id p = Some [vol]" "target p = Some tg"
    "volume_snapshot e vol = Some vj" "member_drives vj = Some ds"
    and a: "drives_to_add_of tg ds = []
            \<or> (\<exists>m. OCE_MIN_PD_RAID_MAPPING (RAIDType vj) = Some m
                   \<and> length (drives_to_add_of tg ds) mod m \<noteq> 0)"
    by (auto simp: at_target_state_def split: option.splits list.splits)
  have g: "guards_pass e p =
     (tg \<noteq> [] \<and> RAIDType vj \<notin> set [Some ''RAID50'', Some ''RAID60'', Some ''RAID1''])"
    using assms(1) t by (simp add: guards_pass_def)
  show ?thesis
    unfolding oce_target_resolved [OF t] g
    using a by (auto simp: exit0_def no_changes_def)
qed

lemmas sample_defs = sample_env_def sample_params_def sample_drive_def sample_volume_def
  ok_def accepted_def

lemmas snapshot_defs = controller_snapshot_def members_snapshot_def drive_snapshot_def
  pd_snapshot_def volume_snapshot_def member_drives_def encryption_ability_of_def

lemmas run_defs = main_def main_except_def run_command_def job_tracking_def validate_inputs_def
  attributes_given_def hot_spare_config_def ctrl_key_def ctrl_key_payload_def check_id_exists_def
  invoke_get_def invoke_post_def job_of_def except_HTTPError_def split_last_def





lemma set_drives_to_add:
  "set (drives_to_add_of tg ds) = set tg - set (map (split_last CHR ''/'') ds)"
  by (auto simp: drives_to_add_of_def)

lemma oce_mapping_values:
  "OCE_MIN_PD_RAID_MAPPING rt = Some m \<Longrightarrow>
   rt \<in> set [Some ''RAID0'', Some ''RAID5'', Some ''RAID6'', Some ''RAID10'']
   \<and> m = (if rt = Some ''RAID10'' then 2 else 1)"
  by (auto simp: OCE_MIN_PD_RAID_MAPPING_def split: if_splits)

lemma patches_simps [simp]: "patches (t, x) = filter is_PATCH t"
  by (simp add: patches_def)


lemma main_except_exit [simp]:
  "main_except (t, Inl (Exit_json x)) = (t, Inl (Exit_json x))"
  by (simp add: main_except_def)

lemma attr_loop_eq:
  "attr_loop ca inp iv pend diff
     = (iv @ invalid_of ca inp, pend @ pending_of ca inp, diff \<or> pending_of ca inp \<noteq> [])"
  by (induction inp arbitrary: iv pend diff)
     (auto simp: invalid_of_def pending_of_def split: option.splits)

lemma check_attr_exists_eq:
  "check_attr_exists p (Some ca) inp =
     (if invalid_of ca inp \<noteq> []
      then ([], Inl (Exit_json (exit0\<lparr>msg := Some (INVALID_ATTRIBUTES (invalid_of ca inp)),
                                     failed := True\<rparr>)))
      else if pending_of ca inp = [] then ([], no_changes)
      else if check_mode p then ([], changes_found)
      else ([], Inr (pending_of ca inp)))"
  by (auto simp: check_attr_exists_def attr_loop_eq exits stop_def ret_def no_changes_def
      changes_found_def)

lemma set_attributes_eq:
  assumes "attributes p = Some inp"
    and "get_controllers e (CONTROLLERS_URI SYSTEM_ID (fmt (controller_id p))) = Resp rc"
    and "DellStorageController (json_data rc) = Some ca"
  shows "set_attributes e p =
     (if hba_conflict inp
      then ([GET (CONTROLLERS_URI SYSTEM_ID (fmt (controller_id p)))],
            Inl (Exit_json (exit0\<lparr>msg := Some HBA_MODE, failed := True\<rparr>)))
      else and_then ([GET (CONTROLLERS_URI SYSTEM_ID (fmt (controller_id p)))], Inr ()) (\<lambda>u.
           and_then (check_attr_exists p (Some ca) inp)
             (\<lambda>pending. apply_attributes e p pending (SupportedApplyTimes (json_data rc)))))"
  by (simp add: set_attributes_def get_attributes_def assms hba_conflict_def exits stop_def)


lemma set_invalid_of:
  "set (invalid_of ca inp) = {k \<in> fst ` set inp. map_of ca k = None}"
  by (auto simp: invalid_of_def)









section \<open>C1: commands that find the snapshot at their target state\<close>

text \<open>
  C1, as amended. For every command with a target state (SetControllerKey,
  RemoveControllerKey, EnableControllerEncryption, AssignSpare, UnassignSpare,
  ConvertToRAID, ConvertToNonRAID, ChangePDStateToOnline, ChangePDStateToOffline,
  LockVirtualDisk, ResetConfig, OnlineCapacityExpansion by target): on a snapshot that is
  at the target state, with check mode on or off, the command issues no action POST; it
  ends with "No changes found to be applied." when the guards of the command pass, and
  with a failure when a guard does not pass.
\<close>

theorem noop_at_target_state:
  assumes "at_target_state e p"
  shows "posts (run_command e p) = [] \<and>
         (guards_pass e p \<longrightarrow> snd (run_command e p) = no_changes) \<and>
         (\<not> guards_pass e p \<longrightarrow> is_failure (snd (run_command e p)))"
proof -
  from assms obtain cmd where cmd: "command p = Some cmd"
    by (cases "command p") (simp_all add: at_target_state_def)
  have plain: "posts m = [] \<and> snd m = no_changes \<Longrightarrow> guards_pass e p \<Longrightarrow>
      posts m = [] \<and> (guards_pass e p \<longrightarrow> snd m = no_changes)
        \<and> (\<not> guards_pass e p \<longrightarrow> is_failure (snd m))" for m :: "job res"
    by simp
  show ?thesis
  proof (cases cmd)
    case ResetConfig
    with cmd have c: "command p = Some ResetConfig" by simp
    have g: "guards_pass e p" by (simp add: guards_pass_def c)
    show ?thesis
      using noop_lift [OF plain [OF c1_reset [OF c assms] g]] by (simp add: run_command_def c)
  next
    case AssignSpare
    with cmd have c: "command p = Some AssignSpare" by simp
    have g: "guards_pass e p" by (simp add: guards_pass_def c)
    have "command p \<in> set [Some AssignSpare, Some UnassignSpare]" by (simp add: c)
    from noop_lift [OF plain [OF c1_hot_spare [OF this assms] g]]
    show ?thesis by (simp add: run_command_def c)
  next
    case SetControllerKey
    with cmd have c: "command p = Some SetControllerKey" by simp
    have "command p \<in> set [Some SetControllerKey, Some RemoveControllerKey,
                            Some EnableControllerEncryption]" by (simp add: c)
    from noop_lift [OF c1_ctrl_key [OF this assms]]
    show ?thesis by (simp add: run_command_def c)
  next
    case RemoveControllerKey
    with cmd have c: "command p = Some RemoveControllerKey" by simp
    have "command p \<in> set [Some SetControllerKey, Some RemoveControllerKey,
                            Some EnableControllerEncryption]" by (simp add: c)
    from noop_lift [OF c1_ctrl_key [OF this assms]]
    show ?thesis by (simp add: run_command_def c)
  next
    case ReKey
    with cmd assms show ?thesis by (simp add: at_target_state_def)
  next
    case UnassignSpare
    with cmd have c: "command p = Some UnassignSpare" by simp
    have g: "guards_pass e p" by (simp add: guards_pass_def c)
    have "command p \<in> set [Some AssignSpare, Some UnassignSpare]" by (simp add: c)
    from noop_lift [OF plain [OF c1_hot_spare [OF this assms] g]]
    show ?thesis by (simp add: run_command_def c)
  next
    case EnableControllerEncryption
    with cmd have c: "command p = Some EnableControllerEncryption" by simp
    have "command p \<in> set [Some SetControllerKey, Some RemoveControllerKey,
                            Some EnableControllerEncryption]" by (simp add: c)
    from noop_lift [OF c1_ctrl_key [OF this assms]]
    show ?thesis by (simp add: run_command_def c)
  next
    case BlinkTarget
    with cmd assms show ?thesis by (simp add: at_target_state_def)
  next
    case UnBlinkTarget
    with cmd assms show ?thesis by (simp add: at_target_state_def)
  next
    case ConvertToRAID
    with cmd have c: "command p = Some ConvertToRAID" by simp
    have g: "guards_pass e p" by (simp add: guards_pass_def c)
    have "command p \<in> set [Some ConvertToRAID, Some ConvertToNonRAID]" by (simp add: c)
    from noop_lift [OF plain [OF c1_convert [OF this assms] g]]
    show ?thesis by (simp add: run_command_def c)
  next
    case ConvertToNonRAID
    with cmd have c: "command p = Some ConvertToNonRAID" by simp
    have g: "guards_pass e p" by (simp add: guards_pass_def c)
    have "command p \<in> set [Some ConvertToRAID, Some ConvertToNonRAID]" by (simp add: c)
    from noop_lift [OF plain [OF c1_convert [OF this assms] g]]
    show ?thesis by (simp add: run_command_def c)
  next
    case ChangePDStateToOnline
    with cmd have c: "command p = Some ChangePDStateToOnline" by simp
    have g: "guards_pass e p" by (simp add: guards_pass_def c)
    have "command p \<in> set [Some ChangePDStateToOnline, Some ChangePDStateToOffline]"
      by (simp add: c)
    from noop_lift [OF plain [OF c1_change_pd [OF this assms] g]]
    show ?thesis by (simp add: run_command_def c)
  next
    case ChangePDStateToOffline
    with cmd have c: "command p = Some ChangePDStateToOffline" by simp
    have g: "guards_pass e p" by (simp add: guards_pass_def c)
    have "command p \<in> set [Some ChangePDStateToOnline, Some ChangePDStateToOffline]"
      by (simp add: c)
    from noop_lift [OF plain [OF c1_change_pd [OF this assms] g]]
    show ?thesis by (simp add: run_command_def c)
  next
    case LockVirtualDisk
    with cmd have c: "command p = Some LockVirtualDisk" by simp
    have "posts (lock_virtual_disk e p) = [] \<and>
         (guards_pass e p \<longrightarrow> snd (lock_virtual_disk e p) = no_changes) \<and>
         (\<not> guards_pass e p \<longrightarrow> is_failure (snd (lock_virtual_disk e p)))"
      using c1_lock [OF c assms] by auto
    from noop_lift [OF this]
    show ?thesis by (simp add: run_command_def c)
  next
    case OnlineCapacityExpansion
    with cmd have c: "command p = Some OnlineCapacityExpansion" by simp
    from noop_lift [OF c1_oce [OF c assms]]
    show ?thesis by (simp add: run_command_def c)
  next
    case SecureErase
    with cmd assms show ?thesis by (simp add: at_target_state_def)
  qed
qed

text \<open>
  The theorem at two inputs: ResetConfig on a controller without volumes ends with
  "No changes found to be applied."; LockVirtualDisk on a locked volume with a member drive
  that is not self-encrypting ends with a failure; neither issues a POST.
\<close>

theorem noop_at_target_state_witness:
  "(at_target_state sample_env (sample_params\<lparr>command := Some ResetConfig\<rparr>)
    \<and> posts (run_command sample_env (sample_params\<lparr>command := Some ResetConfig\<rparr>)) = []
    \<and> snd (run_command sample_env (sample_params\<lparr>command := Some ResetConfig\<rparr>)) = no_changes)
   \<and> (at_target_state sample_env
         (sample_params\<lparr>command := Some LockVirtualDisk, volume_id := Some [''Disk.Virtual.0:RAID.Slot.1-1'']\<rparr>)
    \<and> posts (run_command sample_env
         (sample_params\<lparr>command := Some LockVirtualDisk, volume_id := Some [''Disk.Virtual.0:RAID.Slot.1-1'']\<rparr>)) = []
    \<and> is_failure (snd (run_command sample_env
         (sample_params\<lparr>command := Some LockVirtualDisk, volume_id := Some [''Disk.Virtual.0:RAID.Slot.1-1'']\<rparr>))))"
proof -
  let ?r = "sample_params\<lparr>command := Some ResetConfig\<rparr>"
  let ?l = "sample_params\<lparr>command := Some LockVirtualDisk, volume_id := Some [''Disk.Virtual.0:RAID.Slot.1-1'']\<rparr>"
  have a1: "at_target_state sample_env ?r"
    by (simp add: at_target_state_def sample_defs snapshot_defs)
  have g1: "guards_pass sample_env ?r"
    by (simp add: guards_pass_def sample_defs)
  have a2: "at_target_state sample_env ?l"
    by (simp add: at_target_state_def sample_defs snapshot_defs)
  have g2: "\<not> guards_pass sample_env ?l"
    by (simp add: guards_pass_def sample_defs snapshot_defs)
  show ?thesis
    using noop_at_target_state [OF a1] noop_at_target_state [OF a2] a1 a2 g1 g2 by simp
qed

text \<open>
  C1 as it is written does not hold: the volume is locked, so the snapshot is at the
  target state of LockVirtualDisk, and the command ends with "Volume is not encryption
  capable." instead of "No changes found to be applied.".
\<close>

theorem noop_at_target_state_counterexample:
  "at_target_state sample_env
     (sample_params\<lparr>command := Some LockVirtualDisk, volume_id := Some [''Disk.Virtual.0:RAID.Slot.1-1'']\<rparr>)
   \<and> snd (run_command sample_env
         (sample_params\<lparr>command := Some LockVirtualDisk, volume_id := Some [''Disk.Virtual.0:RAID.Slot.1-1'']\<rparr>))
       = Inl (Fail_json PHYSICAL_DISK_ERR)
   \<and> snd (run_command sample_env
         (sample_params\<lparr>command := Some LockVirtualDisk, volume_id := Some [''Disk.Virtual.0:RAID.Slot.1-1'']\<rparr>))
       \<noteq> no_changes"
  by (simp add: at_target_state_def sample_defs snapshot_defs run_command_def lock_virtual_disk_def
      check_id_exists_def invoke_get_def exits stop_def no_changes_def)

section \<open>C2: check mode and a snapshot that is not at the target state\<close>

text \<open>
  C2 at a snapshot value outside the enumerated ones. The drive's hot-spare type is
  Chassis, so the drive is not at the target state of AssignSpare (Dedicated or Global),
  and check mode is on. Neither test of \<open>hot_spare_config\<close> matches this value, the
  function falls through to its last branch, and the module submits the action POST and
  ends with the submission message instead of "Changes found to be applied.".
\<close>

theorem check_mode_assign_spare_submits:
  "check_mode (sample_params\<lparr>command := Some AssignSpare,
       target := Some [''Disk.Bay.0:Enclosure.Internal.0-1:RAID.Slot.1-1''],
       check_mode := True\<rparr>)
   \<and> \<not> at_target_state chassis_env (sample_params\<lparr>command := Some AssignSpare,
       target := Some [''Disk.Bay.0:Enclosure.Internal.0-1:RAID.Slot.1-1''],
       check_mode := True\<rparr>)
   \<and> main chassis_env (sample_params\<lparr>command := Some AssignSpare,
       target := Some [''Disk.Bay.0:Enclosure.Internal.0-1:RAID.Slot.1-1''],
       check_mode := True\<rparr>)
     = ([GET (PD_URI ''RAID.Slot.1-1'' ''Disk.Bay.0:Enclosure.Internal.0-1:RAID.Slot.1-1''),
         POST (RAID_ACTION_URI SYSTEM_ID ''AssignSpare'')
           (Some (JObj [(''TargetFQDD'',
              JOpt (Some ''Disk.Bay.0:Enclosure.Internal.0-1:RAID.Slot.1-1''))])),
         WAIT_FOR_JOB (JOB_URI_OEM ''JID_1'') False 120],
        Inl (Exit_json (exit0\<lparr>msg := Some (JOB_SUBMISSION ''AssignSpare''),
               task := Some (''JID_1'', JOB_URI_OEM ''JID_1''),
               status := Some \<lparr>JobState = Some ''Completed'', PercentComplete = Some 100,
                               Message = Some ''Job completed successfully.''\<rparr>\<rparr>)))"
  by (simp add: at_target_state_def chassis_env_def sample_defs snapshot_defs run_defs
      exits stop_def ret_def)

section \<open>C3: capacity expansion by target\<close>

text \<open>
  C3, as amended. For a request with a list of targets, on a volume whose RAID type is in
  the table (RAID0, RAID5, RAID6 with increment 1, RAID10 with increment 2): an empty
  list of targets ends with the failure "Provided list of targets is empty.", in either
  mode and without a POST. For a non-empty list, the drives to add are the requested
  targets that are not member drives of the volume; the command ends with "No changes
  found to be applied.", in either mode and without a POST, when there is no drive to add
  or their number is not divisible by the increment; otherwise it ends with "Changes
  found to be applied." without a POST when check mode is on, and submits the expansion
  with the drives to add when check mode is off.
\<close>

theorem oce_by_target:
  assumes "volume_id p = Some [vol]" and "target p = Some tg"
    and "volume_snapshot e vol = Some vj" and "member_drives vj = Some ds"
    and "OCE_MIN_PD_RAID_MAPPING (RAIDType vj) = Some m"
  shows "set (drives_to_add_of tg ds) = set tg - set (map (split_last CHR ''/'') ds)
    \<and> m = (if RAIDType vj = Some ''RAID10'' then 2 else 1)
    \<and> (tg = [] \<longrightarrow>
         online_capacity_expansion e p
           = ([GET (VOLUME_URI SYSTEM_ID (split_last CHR '':'' vol) @ ''/'' @ vol)],
              Inl (Exit_json (exit0\<lparr>msg := Some OCE_TARGET_EMPTY, failed := True\<rparr>))))
    \<and> (tg \<noteq> [] \<and> (drives_to_add_of tg ds = [] \<or> length (drives_to_add_of tg ds) mod m \<noteq> 0)
         \<longrightarrow>
         online_capacity_expansion e p
           = ([GET (VOLUME_URI SYSTEM_ID (split_last CHR '':'' vol) @ ''/'' @ vol)], no_changes))
    \<and> (drives_to_add_of tg ds \<noteq> [] \<and> length (drives_to_add_of tg ds) mod m = 0
         \<and> check_mode p \<longrightarrow>
         online_capacity_expansion e p
           = ([GET (VOLUME_URI SYSTEM_ID (split_last CHR '':'' vol) @ ''/'' @ vol)],
              changes_found))
    \<and> (drives_to_add_of tg ds \<noteq> [] \<and> length (drives_to_add_of tg ds) mod m = 0
         \<and> \<not> check_mode p \<longrightarrow>
         fst (online_capacity_expansion e p)
           = [GET (VOLUME_URI SYSTEM_ID (split_last CHR '':'' vol) @ ''/'' @ vol),
              POST (RAID_ACTION_URI SYSTEM_ID ''OnlineCapacityExpansion'')
                (Some (JObj [(''TargetFQDD'', JOpt (Some vol)),
                             (''PDArray'', JStrs (drives_to_add_of tg ds))]))])"
proof -
  from oce_mapping_values [OF assms(5)]
  have rt: "RAIDType vj \<in> set [Some ''RAID0'', Some ''RAID5'', Some ''RAID6'', Some ''RAID10'']"
    and m: "m = (if RAIDType vj = Some ''RAID10'' then 2 else 1)"
    by simp_all
  from rt have n1: "RAIDType vj \<notin> set [Some ''RAID50'', Some ''RAID60'']"
    and n2: "RAIDType vj \<noteq> Some ''RAID1''"
    by auto
  have e0: "drives_to_add_of [] ds = []"
    by (simp add: drives_to_add_of_def)
  show ?thesis
  proof (cases "tg = []")
    case True
    have "online_capacity_expansion e p
           = ([GET (VOLUME_URI SYSTEM_ID (split_last CHR '':'' vol) @ ''/'' @ vol)],
              Inl (Exit_json (exit0\<lparr>msg := Some OCE_TARGET_EMPTY, failed := True\<rparr>)))"
      unfolding oce_target_resolved [OF assms(1-4)] if_not_P [OF n1] if_P [OF True]
      by (rule refl)
    then show ?thesis
      by (simp add: True e0 m)
  next
    case False
    have body: "online_capacity_expansion e p =
      (if drives_to_add_of tg ds = []
       then ([GET (VOLUME_URI SYSTEM_ID (split_last CHR '':'' vol) @ ''/'' @ vol)], no_changes)
       else if length (drives_to_add_of tg ds) mod m \<noteq> 0
       then ([GET (VOLUME_URI SYSTEM_ID (split_last CHR '':'' vol) @ ''/'' @ vol)], no_changes)
       else if check_mode p
       then ([GET (VOLUME_URI SYSTEM_ID (split_last CHR '':'' vol) @ ''/'' @ vol)],
             changes_found)
       else and_then
              ([GET (VOLUME_URI SYSTEM_ID (split_last CHR '':'' vol) @ ''/'' @ vol)],
               Inr ()) (\<lambda>u.
            except_HTTPError
              (and_then (invoke_post e
                           (RAID_ACTION_URI SYSTEM_ID ''OnlineCapacityExpansion'')
                           (Some (JObj [(''TargetFQDD'', JOpt (Some vol)),
                              (''PDArray'', JStrs (drives_to_add_of tg ds))]))) job_of)
              (exit_failed REMOTE_MESSAGE)))"
      unfolding oce_target_resolved [OF assms(1-4)] if_not_P [OF n1] if_not_P [OF False]
        if_not_P [OF n2] assms(5) option.case
      by (rule refl)
    show ?thesis
      unfolding body
      by (simp add: set_drives_to_add m False)
  qed
qed

text \<open>
  The theorem on a RAID10 volume with the member drive D0: the targets D0 and D1 leave one
  drive to add, which ends with "No changes found to be applied."; the targets D1 and D2
  leave two, which are submitted with check mode off and reported as "Changes found to be
  applied." with check mode on; an empty list of targets, with check mode on, ends with
  the failure "Provided list of targets is empty.".
\<close>

theorem oce_by_target_witness:
  "(drives_to_add_of [''D0'', ''D1'']
      [''/redfish/v1/Systems/System.Embedded.1/Storage/Drives/D0''] = [''D1'']
    \<and> online_capacity_expansion sample_env
        (sample_params\<lparr>command := Some OnlineCapacityExpansion,
           volume_id := Some [''Disk.Virtual.0:RAID.Slot.1-1''],
           target := Some [''D0'', ''D1'']\<rparr>)
      = ([GET (VOLUME_URI SYSTEM_ID ''RAID.Slot.1-1'' @ ''/'' @ ''Disk.Virtual.0:RAID.Slot.1-1'')],
         no_changes))
   \<and> (drives_to_add_of [''D1'', ''D2'']
        [''/redfish/v1/Systems/System.Embedded.1/Storage/Drives/D0''] = [''D1'', ''D2'']
      \<and> fst (online_capacity_expansion sample_env
          (sample_params\<lparr>command := Some OnlineCapacityExpansion,
             volume_id := Some [''Disk.Virtual.0:RAID.Slot.1-1''],
             target := Some [''D1'', ''D2'']\<rparr>))
        = [GET (VOLUME_URI SYSTEM_ID ''RAID.Slot.1-1'' @ ''/'' @ ''Disk.Virtual.0:RAID.Slot.1-1''),
           POST (RAID_ACTION_URI SYSTEM_ID ''OnlineCapacityExpansion'')
             (Some (JObj [(''TargetFQDD'', JOpt (Some ''Disk.Virtual.0:RAID.Slot.1-1'')),
                          (''PDArray'', JStrs [''D1'', ''D2''])]))])
   \<and> online_capacity_expansion sample_env
        (sample_params\<lparr>command := Some OnlineCapacityExpansion,
           volume_id := Some [''Disk.Virtual.0:RAID.Slot.1-1''],
           target := Some [''D1'', ''D2''], check_mode := True\<rparr>)
      = ([GET (VOLUME_URI SYSTEM_ID ''RAID.Slot.1-1'' @ ''/'' @ ''Disk.Virtual.0:RAID.Slot.1-1'')],
         changes_found)
   \<and> online_capacity_expansion sample_env
        (sample_params\<lparr>command := Some OnlineCapacityExpansion,
           volume_id := Some [''Disk.Virtual.0:RAID.Slot.1-1''],
           target := Some [], check_mode := True\<rparr>)
      = ([GET (VOLUME_URI SYSTEM_ID ''RAID.Slot.1-1'' @ ''/'' @ ''Disk.Virtual.0:RAID.Slot.1-1'')],
         Inl (Exit_json (exit0\<lparr>msg := Some OCE_TARGET_EMPTY, failed := True\<rparr>)))"
proof -
  let ?vol = "''Disk.Virtual.0:RAID.Slot.1-1''"
  let ?ds = "[''/redfish/v1/Systems/System.Embedded.1/Storage/Drives/D0'']"
  let ?p1 = "sample_params\<lparr>command := Some OnlineCapacityExpansion,
           volume_id := Some [?vol], target := Some [''D0'', ''D1'']\<rparr>"
  let ?p2 = "sample_params\<lparr>command := Some OnlineCapacityExpansion,
           volume_id := Some [?vol], target := Some [''D1'', ''D2'']\<rparr>"
  let ?p3 = "sample_params\<lparr>command := Some OnlineCapacityExpansion,
           volume_id := Some [?vol], target := Some [''D1'', ''D2''], check_mode := True\<rparr>"
  let ?p4 = "sample_params\<lparr>command := Some OnlineCapacityExpansion,
           volume_id := Some [?vol], target := Some [], check_mode := True\<rparr>"
  have v: "volume_snapshot sample_env ?vol = Some sample_volume"
    by (simp add: sample_env_def ok_def snapshot_defs)
  have d: "member_drives sample_volume = Some ?ds"
    by (simp add: sample_volume_def member_drives_def)
  have m: "OCE_MIN_PD_RAID_MAPPING (RAIDType sample_volume) = Some 2"
    by (simp add: sample_volume_def OCE_MIN_PD_RAID_MAPPING_def)
  have a1: "drives_to_add_of [''D0'', ''D1''] ?ds = [''D1'']"
    by (simp add: drives_to_add_of_def split_last_def)
  have a2: "drives_to_add_of [''D1'', ''D2''] ?ds = [''D1'', ''D2'']"
    by (simp add: drives_to_add_of_def split_last_def)
  have s: "split_last CHR '':'' ?vol = ''RAID.Slot.1-1''"
    by (simp add: split_last_def)
  have 1: "volume_id ?p1 = Some [?vol]" "target ?p1 = Some [''D0'', ''D1'']"
    by (simp_all add: sample_params_def)
  have 2: "volume_id ?p2 = Some [?vol]" "target ?p2 = Some [''D1'', ''D2'']"
    "\<not> check_mode ?p2"
    by (simp_all add: sample_params_def)
  have 3: "volume_id ?p3 = Some [?vol]" "target ?p3 = Some [''D1'', ''D2'']"
    "check_mode ?p3"
    by (simp_all add: sample_params_def)
  have 4: "volume_id ?p4 = Some [?vol]" "target ?p4 = Some []"
    by (simp_all add: sample_params_def)
  show ?thesis
    using oce_by_target [OF 1 v d m] oce_by_target [OF 2(1-2) v d m] 2(3)
      oce_by_target [OF 3(1-2) v d m] 3(3) oce_by_target [OF 4 v d m]
    by (simp add: a1 a2 s)
qed

text \<open>
  C3 as it is written does not hold for an empty list of targets: there is no drive to
  add, and the command ends with the failure "Provided list of targets is empty." instead
  of "No changes found to be applied.".
\<close>

theorem oce_by_target_counterexample:
  "drives_to_add_of [] [''/redfish/v1/Systems/System.Embedded.1/Storage/Drives/D0''] = []
   \<and> online_capacity_expansion sample_env
        (sample_params\<lparr>command := Some OnlineCapacityExpansion,
           volume_id := Some [''Disk.Virtual.0:RAID.Slot.1-1''], target := Some []\<rparr>)
      = ([GET (VOLUME_URI SYSTEM_ID ''RAID.Slot.1-1'' @ ''/'' @ ''Disk.Virtual.0:RAID.Slot.1-1'')],
         Inl (Exit_json (exit0\<lparr>msg := Some OCE_TARGET_EMPTY, failed := True\<rparr>)))
   \<and> snd (online_capacity_expansion sample_env
        (sample_params\<lparr>command := Some OnlineCapacityExpansion,
           volume_id := Some [''Disk.Virtual.0:RAID.Slot.1-1''], target := Some []\<rparr>))
      \<noteq> no_changes"
  by (simp add: drives_to_add_of_def sample_defs online_capacity_expansion_def oce_payload_def
      invoke_get_def split_last_def exits stop_def no_changes_def exit0_def)

section \<open>C4: capacity expansion by size\<close>

text \<open>
  C4, as amended. For an expansion by size (no targets, a size other than 0) of a volume
  whose RAID type is neither RAID50 nor RAID60, with the current size in MB computed as
  CapacityBytes floor-divided by 1024 * 1024: a requested size that exceeds the current
  size by less than 100 MB ends with the failure that names the current size, without a
  POST; a requested size that exceeds it by at least 100 MB is submitted. Check mode makes
  no difference.
\<close>

theorem oce_by_size:
  assumes "volume_id p = Some [vol]" and "target p = None" and "size_mb p = Some sz"
    and "sz \<noteq> 0" and "volume_snapshot e vol = Some vj" and "CapacityBytes vj = Some cb"
    and "RAIDType vj \<notin> set [Some ''RAID50'', Some ''RAID60'']"
  shows "(sz - cb div (1024 * 1024) < 100 \<longrightarrow>
           online_capacity_expansion e p
             = ([GET (VOLUME_URI SYSTEM_ID (split_last CHR '':'' vol) @ ''/'' @ vol)],
                Inl (Exit_json (exit0\<lparr>msg := Some (OCE_SIZE_100MB (cb div (1024 * 1024))),
                                      failed := True\<rparr>))))
       \<and> (100 \<le> sz - cb div (1024 * 1024) \<longrightarrow>
           fst (online_capacity_expansion e p)
             = [GET (VOLUME_URI SYSTEM_ID (split_last CHR '':'' vol) @ ''/'' @ vol),
                POST (RAID_ACTION_URI SYSTEM_ID ''OnlineCapacityExpansion'')
                  (Some (JObj [(''TargetFQDD'', JOpt (Some vol)),
                               (''Size'', JVal (PInt sz))]))])"
  unfolding oce_size_resolved [OF assms(1-6)] if_not_P [OF assms(7)]
  by simp

text \<open>
  The theorem on a volume of 362000 MB: 362050 MB is rejected, 362785 MB is submitted.
\<close>

theorem oce_by_size_witness:
  "(362050 - 379584512000 div (1024 * 1024) < (100 :: int)
    \<and> online_capacity_expansion sample_env
        (sample_params\<lparr>command := Some OnlineCapacityExpansion,
           volume_id := Some [''Disk.Virtual.0:RAID.Slot.1-1''], size_mb := Some 362050\<rparr>)
      = ([GET (VOLUME_URI SYSTEM_ID ''RAID.Slot.1-1'' @ ''/'' @ ''Disk.Virtual.0:RAID.Slot.1-1'')],
         Inl (Exit_json (exit0\<lparr>msg := Some (OCE_SIZE_100MB 362000), failed := True\<rparr>))))
   \<and> ((100 :: int) \<le> 362785 - 379584512000 div (1024 * 1024)
      \<and> fst (online_capacity_expansion sample_env
          (sample_params\<lparr>command := Some OnlineCapacityExpansion,
             volume_id := Some [''Disk.Virtual.0:RAID.Slot.1-1''], size_mb := Some 362785\<rparr>))
        = [GET (VOLUME_URI SYSTEM_ID ''RAID.Slot.1-1'' @ ''/'' @ ''Disk.Virtual.0:RAID.Slot.1-1''),
           POST (RAID_ACTION_URI SYSTEM_ID ''OnlineCapacityExpansion'')
             (Some (JObj [(''TargetFQDD'', JOpt (Some ''Disk.Virtual.0:RAID.Slot.1-1'')),
                          (''Size'', JVal (PInt 362785))]))])"
proof -
  let ?vol = "''Disk.Virtual.0:RAID.Slot.1-1''"
  let ?p1 = "sample_params\<lparr>command := Some OnlineCapacityExpansion,
           volume_id := Some [?vol], size_mb := Some 362050\<rparr>"
  let ?p2 = "sample_params\<lparr>command := Some OnlineCapacityExpansion,
           volume_id := Some [?vol], size_mb := Some 362785\<rparr>"
  have v: "volume_snapshot sample_env ?vol = Some sample_volume"
    by (simp add: sample_env_def ok_def snapshot_defs)
  have c: "CapacityBytes sample_volume = Some 379584512000"
    by (simp add: sample_volume_def)
  have r: "RAIDType sample_volume \<notin> set [Some ''RAID50'', Some ''RAID60'']"
    by (simp add: sample_volume_def)
  have s: "split_last CHR '':'' ?vol = ''RAID.Slot.1-1''"
    by (simp add: split_last_def)
  have 1: "volume_id ?p1 = Some [?vol]" "target ?p1 = None" "size_mb ?p1 = Some 362050"
    "(362050 :: int) \<noteq> 0"
    by (simp_all add: sample_params_def)
  have 2: "volume_id ?p2 = Some [?vol]" "target ?p2 = None" "size_mb ?p2 = Some 362785"
    "(362785 :: int) \<noteq> 0"
    by (simp_all add: sample_params_def)
  show ?thesis
    using oce_by_size [OF 1 v c r] oce_by_size [OF 2 v c r]
    by (simp add: s)
qed

text \<open>
  C4 as it is written does not hold on a RAID50 volume: the requested 362785 MB exceed the
  current 362000 MB by more than 100 MB, and the command ends with the failure "Online
  Capacity Expansion is not supported for RAID50 virtual disks." after the read alone.
\<close>

theorem oce_by_size_counterexample:
  "(100 :: int) \<le> 362785 - 379584512000 div (1024 * 1024)
   \<and> online_capacity_expansion raid50_env
        (sample_params\<lparr>command := Some OnlineCapacityExpansion,
           volume_id := Some [''Disk.Virtual.0:RAID.Slot.1-1''], size_mb := Some 362785\<rparr>)
      = ([GET (VOLUME_URI SYSTEM_ID ''RAID.Slot.1-1'' @ ''/'' @ ''Disk.Virtual.0:RAID.Slot.1-1'')],
         Inl (Exit_json (exit0\<lparr>msg := Some (OCE_RAID_TYPE_ERR ''RAID50''), failed := True\<rparr>)))"
  by (simp add: raid50_env_def sample_defs online_capacity_expansion_def
      invoke_get_def split_last_def exits stop_def)

section \<open>C5: ControllerMode together with other attributes\<close>

text \<open>
  C5 at a request that names ControllerMode with a value that Python takes for false.
  ControllerMode is among the requested names, with the empty string as its value, and
  CopybackMode is requested with it. The guard of \<open>set_attributes\<close> tests the value of
  ControllerMode for truth, so it does not fire: the difference is computed and the PATCH
  with both attributes is sent, instead of the failure "Other attributes cannot be updated
  when ControllerMode is provided as input.".
\<close>

theorem controller_mode_falsy_value_not_rejected:
  "map_of [(''ControllerMode'', PStr []), (''CopybackMode'', PStr ''Off'')] ''ControllerMode''
     \<noteq> None
   \<and> set_attributes sample_env
       (sample_params\<lparr>attributes :=
          Some [(''ControllerMode'', PStr []), (''CopybackMode'', PStr ''Off'')]\<rparr>)
     = ([GET (CONTROLLERS_URI SYSTEM_ID ''RAID.Slot.1-1''),
         PATCH (SETTINGS_URI SYSTEM_ID ''RAID.Slot.1-1'')
           (JObj [(''Oem'', JObj [(''Dell'', JObj [(''DellStorageController'',
                     JObj [(''ControllerMode'', JVal (PStr [])),
                           (''CopybackMode'', JVal (PStr ''Off''))])])]),
                  (''@Redfish.SettingsApplyTime'',
                     JObj [(''ApplyTime'', JVal (PStr ''Immediate''))])])],
        Inr (''JID_1'', [(''ApplyTime'', JVal (PStr ''Immediate''))]))"
  by (simp add: sample_defs set_attributes_def get_attributes_def check_attr_exists_def
      apply_attributes_def get_redfish_apply_time_def invoke_patch_def except_HTTPError_def
      split_last_def exits stop_def ret_def and_then_def)

section \<open>C6: attribute names that the controller does not have\<close>

text \<open>
  C6, as amended. For every request with at least one attribute name that is absent
  from the current attribute map of a controller whose attributes could be read: the
  names collected are all the absent names of the request, in its order. When the request
  does not set a controller mode next to other attributes, \<open>set_attributes\<close> ends with the
  failure "The following attributes are invalid: ..." that lists all of them, after the
  one GET of the attributes and before any PATCH, and so does the module, for a request
  without a command on a controller that exists. When the request sets a controller mode
  (a value that is not empty) next to other attributes, \<open>set_attributes\<close> ends with the
  failure of the HBA-mode test instead, which comes first; no PATCH is sent either.
\<close>

theorem absent_attributes_rejected:
  assumes "attributes p = Some inp"
    and "get_controllers e (CONTROLLERS_URI SYSTEM_ID (fmt (controller_id p))) = Resp rc"
    and "DellStorageController (json_data rc) = Some ca"
    and "invalid_of ca inp \<noteq> []"
  shows "set (invalid_of ca inp) = {k \<in> fst ` set inp. map_of ca k = None}
    \<and> (\<not> hba_conflict inp \<longrightarrow>
          set_attributes e p
            = ([GET (CONTROLLERS_URI SYSTEM_ID (fmt (controller_id p)))],
               Inl (Exit_json (exit0\<lparr>msg := Some (INVALID_ATTRIBUTES (invalid_of ca inp)),
                                     failed := True\<rparr>))))
    \<and> (hba_conflict inp \<longrightarrow>
          set_attributes e p
            = ([GET (CONTROLLERS_URI SYSTEM_ID (fmt (controller_id p)))],
               Inl (Exit_json (exit0\<lparr>msg := Some HBA_MODE, failed := True\<rparr>))))
    \<and> (\<not> hba_conflict inp \<and> command p = None \<and> controller_id p = Some cid
         \<and> controller_snapshot e (Some cid) \<noteq> None \<longrightarrow>
          main e p
            = ([GET (CONTROLLER_URI SYSTEM_ID cid), GET (CONTROLLERS_URI SYSTEM_ID cid)],
               Inl (Exit_json (exit0\<lparr>msg := Some (INVALID_ATTRIBUTES (invalid_of ca inp)),
                                     failed := True\<rparr>))))"
proof -
  have s: "set_attributes e p =
     (if hba_conflict inp
      then ([GET (CONTROLLERS_URI SYSTEM_ID (fmt (controller_id p)))],
            Inl (Exit_json (exit0\<lparr>msg := Some HBA_MODE, failed := True\<rparr>)))
      else ([GET (CONTROLLERS_URI SYSTEM_ID (fmt (controller_id p)))],
               Inl (Exit_json (exit0\<lparr>msg := Some (INVALID_ATTRIBUTES (invalid_of ca inp)),
                                     failed := True\<rparr>))))"
    unfolding set_attributes_eq [OF assms(1-3)] check_attr_exists_eq
    by (simp add: assms(4))
  have m: "main e p
            = ([GET (CONTROLLER_URI SYSTEM_ID cid), GET (CONTROLLERS_URI SYSTEM_ID cid)],
               Inl (Exit_json (exit0\<lparr>msg := Some (INVALID_ATTRIBUTES (invalid_of ca inp)),
                                     failed := True\<rparr>)))"
    if h: "\<not> hba_conflict inp" "command p = None" "controller_id p = Some cid"
      "controller_snapshot e (Some cid) \<noteq> None"
  proof -
    from h(4) obtain c where c: "controller_snapshot e (Some cid) = Some c" by auto
    from assms(4) have ne: "inp \<noteq> []" by (auto simp: invalid_of_def)
    have g: "attributes_given p" using assms(1) ne by (simp add: attributes_given_def)
    have rc: "run_command e p = ret None" by (simp add: run_command_def h(2))
    show ?thesis
      by (simp add: main_def g rc attributes_flow_def h(3) check_id_exists_ok [OF c]
          s [unfolded h(3)] h(1))
  qed
  from s m show ?thesis
    by (simp add: set_invalid_of)
qed

text \<open>
  The theorem on a request with two absent names, Bogus and Unknown, around a valid one:
  both are listed, by \<open>set_attributes\<close> and by the module; and on a request with the
  controller mode HBA and the absent name Bogus, which ends with the failure of the
  HBA-mode test.
\<close>

theorem absent_attributes_rejected_witness:
  "invalid_of [(''ControllerMode'', PStr ''RAID''), (''CopybackMode'', PStr ''On'')]
      [(''Bogus'', PInt 1), (''CopybackMode'', PStr ''Off''), (''Unknown'', PStr ''x'')]
     = [''Bogus'', ''Unknown'']
   \<and> main sample_env
       (sample_params\<lparr>attributes :=
          Some [(''Bogus'', PInt 1), (''CopybackMode'', PStr ''Off''),
                (''Unknown'', PStr ''x'')]\<rparr>)
     = ([GET (CONTROLLER_URI SYSTEM_ID ''RAID.Slot.1-1''),
         GET (CONTROLLERS_URI SYSTEM_ID ''RAID.Slot.1-1'')],
        Inl (Exit_json (exit0\<lparr>msg := Some (INVALID_ATTRIBUTES [''Bogus'', ''Unknown'']),
                              failed := True\<rparr>)))
   \<and> set_attributes sample_env
       (sample_params\<lparr>attributes :=
          Some [(''Bogus'', PInt 1), (''CopybackMode'', PStr ''Off''),
                (''Unknown'', PStr ''x'')]\<rparr>)
     = ([GET (CONTROLLERS_URI SYSTEM_ID ''RAID.Slot.1-1'')],
        Inl (Exit_json (exit0\<lparr>msg := Some (INVALID_ATTRIBUTES [''Bogus'', ''Unknown'']),
                              failed := True\<rparr>)))
   \<and> set_attributes sample_env
       (sample_params\<lparr>attributes :=
          Some [(''ControllerMode'', PStr ''HBA''), (''Bogus'', PInt 1)]\<rparr>)
     = ([GET (CONTROLLERS_URI SYSTEM_ID ''RAID.Slot.1-1'')],
        Inl (Exit_json (exit0\<lparr>msg := Some HBA_MODE, failed := True\<rparr>)))"
proof -
  let ?ca = "[(''ControllerMode'', PStr ''RAID''), (''CopybackMode'', PStr ''On'')]"
  let ?inp = "[(''Bogus'', PInt 1), (''CopybackMode'', PStr ''Off''), (''Unknown'', PStr ''x'')]"
  let ?hba = "[(''ControllerMode'', PStr ''HBA''), (''Bogus'', PInt 1)]"
  let ?p = "sample_params\<lparr>attributes := Some ?inp\<rparr>"
  let ?q = "sample_params\<lparr>attributes := Some ?hba\<rparr>"
  let ?rc = "\<lparr>success = True, status_code = 200, Location = None,
            json_data = \<lparr>DellStorageController = Some ?ca,
              SupportedApplyTimes = [''Immediate'', ''OnReset'', ''AtMaintenanceWindowStart'',
                     ''InMaintenanceWindowOnReset'']\<rparr>\<rparr>"
  have i: "invalid_of ?ca ?inp = [''Bogus'', ''Unknown'']" "invalid_of ?ca ?hba = [''Bogus'']"
    by (simp_all add: invalid_of_def)
  have n: "invalid_of ?ca ?inp \<noteq> []" "invalid_of ?ca ?hba \<noteq> []"
    by (simp_all add: i)
  have a: "attributes ?p = Some ?inp" "attributes ?q = Some ?hba"
    by (simp_all add: sample_params_def)
  have g: "get_controllers sample_env (CONTROLLERS_URI SYSTEM_ID (fmt (controller_id ?p))) = Resp ?rc"
    "get_controllers sample_env (CONTROLLERS_URI SYSTEM_ID (fmt (controller_id ?q))) = Resp ?rc"
    by (simp_all add: sample_defs)
  have d: "DellStorageController (json_data ?rc) = Some ?ca"
    by simp
  have h: "\<not> hba_conflict ?inp" "hba_conflict ?hba"
    by (simp_all add: hba_conflict_def)
  have c: "command ?p = None" "controller_id ?p = Some ''RAID.Slot.1-1''"
    "controller_snapshot sample_env (Some ''RAID.Slot.1-1'') \<noteq> None"
    "fmt (controller_id ?p) = ''RAID.Slot.1-1''" "fmt (controller_id ?q) = ''RAID.Slot.1-1''"
    by (simp_all add: sample_defs snapshot_defs)
  show ?thesis
    using absent_attributes_rejected [OF a(1) g(1) d n(1), of "''RAID.Slot.1-1''"]
      absent_attributes_rejected [OF a(2) g(2) d n(2), of "''RAID.Slot.1-1''"] h c
    by (simp add: i)
qed

text \<open>
  C6 as it is written does not hold for every request with an absent name: the request
  with the controller mode HBA and the absent name Bogus ends, in the module, with the
  failure of the HBA-mode test, which lists no name.
\<close>

theorem absent_attributes_rejected_counterexample:
  "invalid_of [(''ControllerMode'', PStr ''RAID''), (''CopybackMode'', PStr ''On'')]
      [(''ControllerMode'', PStr ''HBA''), (''Bogus'', PInt 1)] = [''Bogus'']
   \<and> main sample_env
       (sample_params\<lparr>attributes :=
          Some [(''ControllerMode'', PStr ''HBA''), (''Bogus'', PInt 1)]\<rparr>)
     = ([GET (CONTROLLER_URI SYSTEM_ID ''RAID.Slot.1-1''),
         GET (CONTROLLERS_URI SYSTEM_ID ''RAID.Slot.1-1'')],
        Inl (Exit_json (exit0\<lparr>msg := Some HBA_MODE, failed := True\<rparr>)))"
  by (simp add: invalid_of_def sample_defs main_def main_except_def run_command_def
      attributes_given_def attributes_flow_def check_id_exists_def set_attributes_def
      get_attributes_def invoke_get_def except_HTTPError_def exits stop_def ret_def)

section \<open>C7: validation of the apply time\<close>




section \<open>C8: the commands that always change\<close>




section \<open>C9: the outcome after waiting for the job\<close>

text \<open>
  C9. When \<open>job_wait\<close> is set and the wait delivers a job body with a JobState, \<open>main\<close>
  ends with failed set and changed unset exactly when the JobState is Failed, and with
  changed set and failed unset otherwise, in particular for a completed job; the outcome
  carries the job body as its status and the job handle, id and URI, as its task. This
  holds after a command that returned a job, and after an attribute change whose apply
  time is Immediate.
\<close>

theorem job_wait_outcome:
  "(\<not> attributes_given p \<and> validate_inputs p = ret ()
      \<and> run_command e p = (t, Inr (Some (resp, job_uri, job_id)))
      \<and> job_wait p
      \<and> JobState (job_data e (JOB_URI_OEM job_id) True (job_wait_timeout p)) = Some st
    \<longrightarrow> main e p
          = (t @ [WAIT_FOR_JOB (JOB_URI_OEM job_id) True (job_wait_timeout p)],
             Inl (Exit_json (exit0\<lparr>msg := Some (JOB_COMPLETION (fmt_command (command p))),
                    task := Some (job_id, JOB_URI_OEM job_id),
                    status := Some (job_data e (JOB_URI_OEM job_id) True (job_wait_timeout p)),
                    changed := (st \<noteq> ''Failed''),
                    failed := (st = ''Failed'')\<rparr>))))
   \<and> (attributes_given p \<and> command p = None
        \<and> controller_snapshot e (controller_id p) \<noteq> None \<and> controller_id p \<noteq> None
        \<and> set_attributes e p = (t, Inr (job_id, ts))
        \<and> map_of ts ''ApplyTime'' = Some (JVal (PStr ''Immediate''))
        \<and> job_wait p
        \<and> JobState (job_data e (JOB_URI_OEM job_id) True (job_wait_timeout p)) = Some st
      \<longrightarrow> main e p
            = (GET (CONTROLLER_URI SYSTEM_ID (fmt (controller_id p))) # t
                 @ [WAIT_FOR_JOB (JOB_URI_OEM job_id) True (job_wait_timeout p)],
               Inl (Exit_json (exit0\<lparr>msg := Some JOB_COMPLETION_ATTRIBUTES,
                      task := Some (job_id, JOB_URI_OEM job_id),
                      status := Some (job_data e (JOB_URI_OEM job_id) True
                                        (job_wait_timeout p)),
                      changed := (st \<noteq> ''Failed''),
                      failed := (st = ''Failed'')\<rparr>))))"
proof (intro conjI impI)
  assume a: "\<not> attributes_given p \<and> validate_inputs p = ret ()
      \<and> run_command e p = (t, Inr (Some (resp, job_uri, job_id)))
      \<and> job_wait p
      \<and> JobState (job_data e (JOB_URI_OEM job_id) True (job_wait_timeout p)) = Some st"
  then show "main e p
          = (t @ [WAIT_FOR_JOB (JOB_URI_OEM job_id) True (job_wait_timeout p)],
             Inl (Exit_json (exit0\<lparr>msg := Some (JOB_COMPLETION (fmt_command (command p))),
                    task := Some (job_id, JOB_URI_OEM job_id),
                    status := Some (job_data e (JOB_URI_OEM job_id) True (job_wait_timeout p)),
                    changed := (st \<noteq> ''Failed''),
                    failed := (st = ''Failed'')\<rparr>)))"
    by (simp add: main_def job_tracking_def)
next
  assume a: "attributes_given p \<and> command p = None
        \<and> controller_snapshot e (controller_id p) \<noteq> None \<and> controller_id p \<noteq> None
        \<and> set_attributes e p = (t, Inr (job_id, ts))
        \<and> map_of ts ''ApplyTime'' = Some (JVal (PStr ''Immediate''))
        \<and> job_wait p
        \<and> JobState (job_data e (JOB_URI_OEM job_id) True (job_wait_timeout p)) = Some st"
  then obtain c cid where c: "controller_snapshot e (controller_id p) = Some c"
    and cid: "controller_id p = Some cid" by auto
  from a have b: "attributes_given p" "set_attributes e p = (t, Inr (job_id, ts))"
    "map_of ts ''ApplyTime'' = Some (JVal (PStr ''Immediate''))" "job_wait p"
    "JobState (job_data e (JOB_URI_OEM job_id) True (job_wait_timeout p)) = Some st"
    by simp_all
  have rc: "run_command e p = ret None"
    using a by (simp add: run_command_def)
  show "main e p
            = (GET (CONTROLLER_URI SYSTEM_ID (fmt (controller_id p))) # t
                 @ [WAIT_FOR_JOB (JOB_URI_OEM job_id) True (job_wait_timeout p)],
               Inl (Exit_json (exit0\<lparr>msg := Some JOB_COMPLETION_ATTRIBUTES,
                      task := Some (job_id, JOB_URI_OEM job_id),
                      status := Some (job_data e (JOB_URI_OEM job_id) True
                                        (job_wait_timeout p)),
                      changed := (st \<noteq> ''Failed''),
                      failed := (st = ''Failed'')\<rparr>)))"
    by (simp add: main_def rc attributes_flow_def check_id_exists_ok [OF c [unfolded cid]] b cid)
qed

text \<open>
  The theorem at three inputs: ResetConfig with a job that completes, ResetConfig with a
  job that fails, and an attribute change with a job that completes.
\<close>

theorem job_wait_outcome_witness:
  "main busy_env (sample_params\<lparr>command := Some ResetConfig, job_wait := True\<rparr>)
     = ([GET (CONTROLLER_URI SYSTEM_ID ''RAID.Slot.1-1''),
         GET (VOLUME_URI SYSTEM_ID ''RAID.Slot.1-1''),
         POST (RAID_ACTION_URI SYSTEM_ID ''ResetConfig'')
           (Some (JObj [(''TargetFQDD'', JOpt (Some ''RAID.Slot.1-1''))])),
         WAIT_FOR_JOB (JOB_URI_OEM ''JID_1'') True 120],
        Inl (Exit_json (exit0\<lparr>msg := Some (JOB_COMPLETION ''ResetConfig''),
               task := Some (''JID_1'', JOB_URI_OEM ''JID_1''),
               status := Some \<lparr>JobState = Some ''Completed'', PercentComplete = Some 100,
                               Message = Some ''Job completed successfully.''\<rparr>,
               changed := True, failed := False\<rparr>)))
   \<and> main failed_job_env (sample_params\<lparr>command := Some ResetConfig, job_wait := True\<rparr>)
     = ([GET (CONTROLLER_URI SYSTEM_ID ''RAID.Slot.1-1''),
         GET (VOLUME_URI SYSTEM_ID ''RAID.Slot.1-1''),
         POST (RAID_ACTION_URI SYSTEM_ID ''ResetConfig'')
           (Some (JObj [(''TargetFQDD'', JOpt (Some ''RAID.Slot.1-1''))])),
         WAIT_FOR_JOB (JOB_URI_OEM ''JID_1'') True 120],
        Inl (Exit_json (exit0\<lparr>msg := Some (JOB_COMPLETION ''ResetConfig''),
               task := Some (''JID_1'', JOB_URI_OEM ''JID_1''),
               status := Some \<lparr>JobState = Some ''Failed'', PercentComplete = Some 100,
                               Message = Some ''Job failed.''\<rparr>,
               changed := False, failed := True\<rparr>)))
   \<and> snd (main sample_env
        (sample_params\<lparr>attributes := Some [(''CopybackMode'', PStr ''Off'')],
                        job_wait := True\<rparr>))
     = Inl (Exit_json (exit0\<lparr>msg := Some JOB_COMPLETION_ATTRIBUTES,
               task := Some (''JID_1'', JOB_URI_OEM ''JID_1''),
               status := Some \<lparr>JobState = Some ''Completed'', PercentComplete = Some 100,
                               Message = Some ''Job completed successfully.''\<rparr>,
               changed := True, failed := False\<rparr>))"
proof -
  let ?p = "sample_params\<lparr>command := Some ResetConfig, job_wait := True\<rparr>"
  let ?a = "sample_params\<lparr>attributes := Some [(''CopybackMode'', PStr ''Off'')],
                        job_wait := True\<rparr>"
  let ?t = "[GET (CONTROLLER_URI SYSTEM_ID ''RAID.Slot.1-1''),
         GET (VOLUME_URI SYSTEM_ID ''RAID.Slot.1-1''),
         POST (RAID_ACTION_URI SYSTEM_ID ''ResetConfig'')
           (Some (JObj [(''TargetFQDD'', JOpt (Some ''RAID.Slot.1-1''))]))]"
  let ?resp = "\<lparr>success = True, status_code = 202,
           Location = Some ''/redfish/v1/TaskService/Tasks/JID_1'', json_data = ()\<rparr>"
  let ?ta = "[GET (CONTROLLERS_URI SYSTEM_ID ''RAID.Slot.1-1''),
         PATCH (SETTINGS_URI SYSTEM_ID ''RAID.Slot.1-1'')
           (JObj [(''Oem'', JObj [(''Dell'', JObj [(''DellStorageController'',
                     JObj [(''CopybackMode'', JVal (PStr ''Off''))])])]),
                  (''@Redfish.SettingsApplyTime'',
                     JObj [(''ApplyTime'', JVal (PStr ''Immediate''))])])]"
  have p: "\<not> attributes_given ?p" "validate_inputs ?p = ret ()" "job_wait ?p"
    "job_wait_timeout ?p = 120" "fmt_command (command ?p) = ''ResetConfig''"
    by (simp_all add: sample_params_def attributes_given_def validate_inputs_def)
  have r1: "run_command busy_env ?p
              = (?t, Inr (Some (?resp, ''/redfish/v1/TaskService/Tasks/JID_1'', ''JID_1'')))"
    by (simp add: busy_env_def sample_defs run_defs ctrl_reset_config_def exits stop_def ret_def)
  have r2: "run_command failed_job_env ?p
              = (?t, Inr (Some (?resp, ''/redfish/v1/TaskService/Tasks/JID_1'', ''JID_1'')))"
    by (simp add: failed_job_env_def busy_env_def sample_defs run_defs ctrl_reset_config_def
        exits stop_def ret_def)
  have j1: "JobState (job_data busy_env (JOB_URI_OEM ''JID_1'') True (job_wait_timeout ?p))
              = Some ''Completed''"
    by (simp add: busy_env_def sample_defs)
  have j2: "JobState (job_data failed_job_env (JOB_URI_OEM ''JID_1'') True (job_wait_timeout ?p))
              = Some ''Failed''"
    by (simp add: failed_job_env_def busy_env_def sample_defs)
  have a: "attributes_given ?a" "command ?a = None"
    "controller_snapshot sample_env (controller_id ?a) \<noteq> None" "controller_id ?a \<noteq> None"
    "job_wait ?a"
    by (simp_all add: sample_defs attributes_given_def snapshot_defs)
  have sa: "set_attributes sample_env ?a
              = (?ta, Inr (''JID_1'', [(''ApplyTime'', JVal (PStr ''Immediate''))]))"
    by (simp add: sample_defs set_attributes_def get_attributes_def check_attr_exists_def
      apply_attributes_def get_redfish_apply_time_def invoke_patch_def except_HTTPError_def
      split_last_def exits stop_def ret_def and_then_def)
  have ja: "JobState (job_data sample_env (JOB_URI_OEM ''JID_1'') True (job_wait_timeout ?a))
              = Some ''Completed''"
    by (simp add: sample_defs)
  have m: "map_of [(''ApplyTime'', JVal (PStr ''Immediate''))] ''ApplyTime''
             = Some (JVal (PStr ''Immediate''))"
    by simp
  have c1: "main busy_env ?p
     = (?t @ [WAIT_FOR_JOB (JOB_URI_OEM ''JID_1'') True 120],
        Inl (Exit_json (exit0\<lparr>msg := Some (JOB_COMPLETION ''ResetConfig''),
               task := Some (''JID_1'', JOB_URI_OEM ''JID_1''),
               status := Some (job_data busy_env (JOB_URI_OEM ''JID_1'') True 120),
               changed := True, failed := False\<rparr>)))"
    using job_wait_outcome [of ?p busy_env ?t ?resp "''/redfish/v1/TaskService/Tasks/JID_1''"
        "''JID_1''" "''Completed''"] p r1 j1
    by simp
  have c2: "main failed_job_env ?p
     = (?t @ [WAIT_FOR_JOB (JOB_URI_OEM ''JID_1'') True 120],
        Inl (Exit_json (exit0\<lparr>msg := Some (JOB_COMPLETION ''ResetConfig''),
               task := Some (''JID_1'', JOB_URI_OEM ''JID_1''),
               status := Some (job_data failed_job_env (JOB_URI_OEM ''JID_1'') True 120),
               changed := False, failed := True\<rparr>)))"
    using job_wait_outcome [of ?p failed_job_env ?t ?resp "''/redfish/v1/TaskService/Tasks/JID_1''"
        "''JID_1''" "''Failed''"] p r2 j2
    by simp
  have c3: "snd (main sample_env ?a)
     = Inl (Exit_json (exit0\<lparr>msg := Some JOB_COMPLETION_ATTRIBUTES,
               task := Some (''JID_1'', JOB_URI_OEM ''JID_1''),
               status := Some (job_data sample_env (JOB_URI_OEM ''JID_1'') True
                                 (job_wait_timeout ?a)),
               changed := True, failed := False\<rparr>))"
    using job_wait_outcome [of ?a sample_env ?ta _ _ "''JID_1''" "''Completed''"
        "[(''ApplyTime'', JVal (PStr ''Immediate''))]"] a sa ja m
    by simp
  from c1 c2 c3 show ?thesis
    by (simp add: busy_env_def failed_job_env_def sample_defs)
qed

section \<open>C10: LockVirtualDisk reads the member drives first\<close>

text \<open>
  C10. For every volume that could be read together with its member drives, whatever its
  lock status: when at least one member drive has an EncryptionAbility other than
  SelfEncryptingDrive, \<open>lock_virtual_disk\<close> ends with the failure "Volume is not
  encryption capable.", issues no POST, and does not end with "No changes found to be
  applied.".
\<close>

theorem lock_virtual_disk_not_encryption_capable:
  assumes "volume_id p = Some (vol # vs)"
    and "controller_snapshot e (Some (split_last CHR '':'' vol)) \<noteq> None"
    and "volume_snapshot e vol = Some vj"
    and "member_drives vj = Some ds"
    and "\<forall>d\<in>set ds. drive_snapshot e d \<noteq> None"
    and "\<exists>d\<in>set ds. encryption_ability_of e d \<noteq> Some ''SelfEncryptingDrive''"
  shows "snd (lock_virtual_disk e p) = Inl (Fail_json PHYSICAL_DISK_ERR)
         \<and> posts (lock_virtual_disk e p) = []
         \<and> snd (lock_virtual_disk e p) \<noteq> no_changes"
proof -
  from assms(2) obtain c where c: "controller_snapshot e (Some (split_last CHR '':'' vol)) = Some c"
    by auto
  have rd: "list_all (\<lambda>d. drive_snapshot e d \<noteq> None) ds"
    using assms(5) by (simp add: list_all_iff)
  have ns: "\<not> list_all (\<lambda>d. encryption_ability_of e d = Some ''SelfEncryptingDrive'') ds"
    using assms(6) by (simp add: list_all_iff)
  obtain tr where tr: "encryption_ability_check e ds = (tr, Inl (Fail_json PHYSICAL_DISK_ERR))"
    using encryption_ability_check_fails [OF rd ns]
    by (cases "encryption_ability_check e ds") simp
  have "filter is_POST tr = []"
    using posts_encryption_ability_check [of e ds] tr by simp
  then show ?thesis
    unfolding lock_virtual_disk_resolved [OF assms(1) c assms(3) assms(4)] tr
    by (simp add: no_changes_def)
qed

text \<open>
  The theorem on a locked volume whose member drive is not self-encrypting, check mode on.
\<close>

theorem lock_virtual_disk_not_encryption_capable_witness:
  "LockStatus sample_volume = Some ''Locked''
   \<and> snd (lock_virtual_disk sample_env
        (sample_params\<lparr>command := Some LockVirtualDisk,
                        volume_id := Some [''Disk.Virtual.0:RAID.Slot.1-1''],
                        check_mode := True\<rparr>))
      = Inl (Fail_json PHYSICAL_DISK_ERR)
   \<and> posts (lock_virtual_disk sample_env
        (sample_params\<lparr>command := Some LockVirtualDisk,
                        volume_id := Some [''Disk.Virtual.0:RAID.Slot.1-1''],
                        check_mode := True\<rparr>)) = []"
proof -
  let ?p = "sample_params\<lparr>command := Some LockVirtualDisk,
                        volume_id := Some [''Disk.Virtual.0:RAID.Slot.1-1''],
                        check_mode := True\<rparr>"
  let ?ds = "[''/redfish/v1/Systems/System.Embedded.1/Storage/Drives/D0'']"
  have 1: "volume_id ?p = Some [''Disk.Virtual.0:RAID.Slot.1-1'']"
    by (simp add: sample_params_def)
  have 2: "controller_snapshot sample_env
             (Some (split_last CHR '':'' ''Disk.Virtual.0:RAID.Slot.1-1'')) \<noteq> None"
    by (simp add: sample_defs snapshot_defs)
  have 3: "volume_snapshot sample_env ''Disk.Virtual.0:RAID.Slot.1-1'' = Some sample_volume"
    by (simp add: sample_env_def ok_def snapshot_defs)
  have 4: "member_drives sample_volume = Some ?ds"
    by (simp add: sample_volume_def member_drives_def)
  have 5: "\<forall>d\<in>set ?ds. drive_snapshot sample_env d \<noteq> None"
    by (simp add: sample_defs snapshot_defs)
  have 6: "\<exists>d\<in>set ?ds. encryption_ability_of sample_env d \<noteq> Some ''SelfEncryptingDrive''"
    by (simp add: sample_defs snapshot_defs)
  show ?thesis
    using lock_virtual_disk_not_encryption_capable [OF 1 2 3 4 5 6]
    by (simp add: sample_volume_def)
qed

end
